theory Spec2Isabelle
  imports Main "HOL-Library.Multiset"
begin

text \<open>
  The task aggregate of the service: the repository over the two tables \<^verbatim>\<open>tasks\<close> and
  \<^verbatim>\<open>task_items\<close>, the use-case over the repository, and the HTTP adapter over the
  use-case. Each Go function is a function of the same name here; a method
  \<^verbatim>\<open>(r *taskRepository) Create\<close> is \<^verbatim>\<open>taskRepository_Create\<close>. What a function does
  to the database is explicit: it takes the world and returns the world it leaves. An
  \<^verbatim>\<open>error\<close> result is an \<^verbatim>\<open>error option\<close> (\<^verbatim>\<open>None\<close> is Go's \<^verbatim>\<open>nil\<close>), and a
  result \<^verbatim>\<open>(value, error)\<close> is a sum with the error on the left.
\<close>

section \<open>Go values\<close>

text \<open>
  \<^verbatim>\<open>int64\<close> values are integers; the code never does arithmetic on them, it only compares
  them, so no wrap-around arises. A \<^verbatim>\<open>time.Time\<close> is an instant on a linear scale,
  counted in nanoseconds, which is the precision of \<^verbatim>\<open>time.Now()\<close>; the zero
  \<^verbatim>\<open>time.Time\<close> is instant 0.
\<close>

type_synonym int64 = int
type_synonym time = int

text \<open>
  A Go slice is either \<^verbatim>\<open>nil\<close> or a sequence of elements. \<^verbatim>\<open>len\<close> and
  \<^verbatim>\<open>range\<close> treat \<^verbatim>\<open>nil\<close> as empty, \<^verbatim>\<open>make([]T, 0, n)\<close> yields a non-nil
  empty slice, and \<^verbatim>\<open>append\<close> always yields a non-nil slice.
\<close>

datatype 'a slice = nil | Slice "'a list"

fun elems :: "'a slice \<Rightarrow> 'a list" where
  "elems nil = []"
| "elems (Slice xs) = xs"

definition len :: "'a slice \<Rightarrow> nat" where
  "len s = length (elems s)"

definition make_slice :: "nat \<Rightarrow> 'a slice" where
  "make_slice capacity = Slice []"

definition append_slice :: "'a slice \<Rightarrow> 'a \<Rightarrow> 'a slice" where
  "append_slice s x = Slice (elems s @ [x])"

section \<open>Errors\<close>

text \<open>
  \<^verbatim>\<open>FieldError\<close> is what the validator reports for one failed field: the Go field name
  and the tag that failed.
\<close>

record FieldError =
  Field :: string
  Tag :: string

text \<open>
  The error values the code creates, receives and compares. \<^verbatim>\<open>ErrTaskNotFound\<close> is
  the package-level sentinel of \<^verbatim>\<open>db/errors.go\<close>; \<^verbatim>\<open>sql_ErrNoRows\<close> is
  \<^verbatim>\<open>database/sql.ErrNoRows\<close>; \<^verbatim>\<open>errors_New m\<close> is a value made on the spot by
  \<^verbatim>\<open>errors.New(m)\<close>; \<^verbatim>\<open>driver_error m\<close> is any other failure the database driver
  reports; \<^verbatim>\<open>strconv_NumError\<close> is what \<^verbatim>\<open>strconv.ParseInt\<close> returns;
  \<^verbatim>\<open>json_error\<close> is a decoding failure of a request body;
  \<^verbatim>\<open>validator_ValidationErrors\<close> is the validator's list of field errors.
\<close>

datatype error =
    ErrTaskNotFound
  | sql_ErrNoRows
  | errors_New string
  | driver_error string
  | strconv_NumError string
  | json_error string
  | validator_ValidationErrors "FieldError list"

text \<open>\<^verbatim>\<open>err.Error()\<close>. The text of a list of validation errors is not used by this code.\<close>

fun Error_msg :: "error \<Rightarrow> string" where
  "Error_msg ErrTaskNotFound = ''task not found''"
| "Error_msg sql_ErrNoRows = ''sql: no rows in result set''"
| "Error_msg (errors_New m) = m"
| "Error_msg (driver_error m) = m"
| "Error_msg (strconv_NumError m) = m"
| "Error_msg (json_error m) = m"
| "Error_msg (validator_ValidationErrors ve) = ''validation failed''"

text \<open>
  \<^verbatim>\<open>errors.Is(err, target)\<close> for a sentinel target: none of the errors above wraps
  another, so it is identity with the target.
\<close>

definition errors_Is :: "error \<Rightarrow> error \<Rightarrow> bool" where
  "errors_Is err target = (err = target)"

section \<open>Models (\<^verbatim>\<open>internal/app/models\<close>)\<close>

text \<open>
  The \<^verbatim>\<open>Task *Task\<close> back-pointer of \<^verbatim>\<open>TaskItem\<close> is never set or read by this code
  and is left out. Items are held by value: the pointers in \<^verbatim>\<open>[]*TaskItem\<close> are never
  nil and never shared in the code under study.
\<close>

record TaskItem =
  ID :: int64
  TaskID :: int64
  Title :: string
  Completed :: bool
  CreatedAt :: time
  UpdatedAt :: time

record Task =
  ID :: int64
  Title :: string
  Description :: string
  CreatedAt :: time
  UpdatedAt :: time
  Items :: "TaskItem slice"

section \<open>The database behind \<^verbatim>\<open>bun.IDB\<close>\<close>

text \<open>
  The two tables of the migration
  (\<^verbatim>\<open>tasks\<close>, \<^verbatim>\<open>task_items\<close>), each a list of rows in stored order: an insert
  appends, a delete removes, and a \<^verbatim>\<open>SELECT\<close> without \<^verbatim>\<open>ORDER BY\<close> yields the rows
  in stored order.
\<close>

record tasks_row =
  id :: int64
  title :: string
  description :: string
  created_at :: time
  updated_at :: time

record task_items_row =
  id :: int64
  task_id :: int64
  title :: string
  completed :: bool
  created_at :: time
  updated_at :: time

text \<open>
  Everything outside the process that the repository touches: the two tables, the two
  \<^verbatim>\<open>BIGSERIAL\<close> sequences (the last value each handed out; they start at 1), the wall
  clock read by \<^verbatim>\<open>time.Now()\<close>, the number of round trips made to the database so far,
  and what the connection will do on the coming round trips (\<^verbatim>\<open>None\<close>: the statement
  is executed; \<^verbatim>\<open>Some m\<close>: the driver fails with message \<^verbatim>\<open>m\<close>, as on a lost
  connection or a cancelled context). When the script is exhausted statements execute.
\<close>

record world =
  tbl_tasks :: "tasks_row list"
  tbl_task_items :: "task_items_row list"
  tasks_id_seq :: nat
  task_items_id_seq :: nat
  wall_clock :: time
  round_trips :: nat
  faults :: "string option list"

definition round_trip :: "world \<Rightarrow> error option \<times> world" where
  "round_trip w =
     (case faults w of
        [] \<Rightarrow> (None, w\<lparr>round_trips := Suc (round_trips w)\<rparr>)
      | f # fs \<Rightarrow> (map_option driver_error f,
                  w\<lparr>round_trips := Suc (round_trips w), faults := fs\<rparr>))"

definition max_int64 :: int where
  "max_int64 = 2 ^ 63 - 1"

text \<open>\<^verbatim>\<open>nextval\<close> of a \<^verbatim>\<open>BIGSERIAL\<close> sequence; it is not undone by a rollback.\<close>

definition nextval_tasks :: "world \<Rightarrow> (error + int64) \<times> world" where
  "nextval_tasks w =
     (if max_int64 < int (tasks_id_seq w) + 1
      then (Inl (driver_error ''nextval: reached maximum value of sequence''), w)
      else (Inr (int (tasks_id_seq w) + 1), w\<lparr>tasks_id_seq := Suc (tasks_id_seq w)\<rparr>))"

definition nextval_task_items :: "world \<Rightarrow> (error + int64) \<times> world" where
  "nextval_task_items w =
     (if max_int64 < int (task_items_id_seq w) + 1
      then (Inl (driver_error ''nextval: reached maximum value of sequence''), w)
      else (Inr (int (task_items_id_seq w) + 1),
            w\<lparr>task_items_id_seq := Suc (task_items_id_seq w)\<rparr>))"

text \<open>
  The length that \<^verbatim>\<open>VARCHAR(255)\<close> counts: characters of UTF-8 text, that is, bytes
  that are not continuation bytes.
\<close>

definition char_length :: "string \<Rightarrow> nat" where
  "char_length s = length (filter (\<lambda>c. (of_char c :: nat) div 64 \<noteq> 2) s)"

text \<open>
  What a \<^verbatim>\<open>TIMESTAMP\<close> column keeps of an instant: the insert sends the instant with
  six fractional digits and the column holds microseconds, so the nanoseconds below the
  microsecond are cut off.
\<close>

definition pg_timestamp :: "time \<Rightarrow> time" where
  "pg_timestamp t = t - t mod 1000"

text \<open>
  One row of \<^verbatim>\<open>INSERT INTO tasks\<close>. The key column is \<^verbatim>\<open>pk,autoincrement\<close>: a zero
  \<^verbatim>\<open>ID\<close> is sent as \<^verbatim>\<open>DEFAULT\<close> and the generated value is read back
  (\<^verbatim>\<open>RETURNING id\<close>); a non-zero \<^verbatim>\<open>ID\<close> is sent as it is. The row must meet the
  constraints of the schema: \<^verbatim>\<open>title VARCHAR(255)\<close> and the primary key. Nothing but
  the key is read back, so the timestamps of the caller's task stay as they were while the
  row holds them at the precision of the column.
\<close>

definition insert_tasks_row :: "Task \<Rightarrow> world \<Rightarrow> (error + Task) \<times> world" where
  "insert_tasks_row task w =
     (case (if Task.ID task = 0 then nextval_tasks w else (Inr (Task.ID task), w)) of
        (Inl e, w1) \<Rightarrow> (Inl e, w1)
      | (Inr i, w1) \<Rightarrow>
          if 255 < char_length (Task.Title task)
          then (Inl (driver_error ''value too long for type character varying(255)''), w1)
          else if i \<in> set (map tasks_row.id (tbl_tasks w1))
          then (Inl (driver_error ''duplicate key value violates unique constraint tasks_pkey''), w1)
          else (Inr (task\<lparr>Task.ID := i\<rparr>),
                w1\<lparr>tbl_tasks := tbl_tasks w1 @
                   [\<lparr>tasks_row.id = i, title = Task.Title task,
                     description = Task.Description task,
                     created_at = pg_timestamp (Task.CreatedAt task),
                     updated_at = pg_timestamp (Task.UpdatedAt task)\<rparr>]\<rparr>))"

text \<open>\<^verbatim>\<open>tx.NewInsert().Model(task).Exec(ctx)\<close>: one round trip, one row.\<close>

definition insert_task :: "Task \<Rightarrow> world \<Rightarrow> (error + Task) \<times> world" where
  "insert_task task w =
     (case round_trip w of
        (Some e, w1) \<Rightarrow> (Inl e, w1)
      | (None, w1) \<Rightarrow> insert_tasks_row task w1)"

text \<open>
  One row of \<^verbatim>\<open>INSERT INTO task_items\<close>: key as above, \<^verbatim>\<open>title VARCHAR(255)\<close>, the
  primary key, and the foreign key \<^verbatim>\<open>task_id REFERENCES tasks(id)\<close>.
\<close>

definition insert_task_items_row :: "TaskItem \<Rightarrow> world \<Rightarrow> (error + TaskItem) \<times> world" where
  "insert_task_items_row item w =
     (case (if TaskItem.ID item = 0 then nextval_task_items w else (Inr (TaskItem.ID item), w)) of
        (Inl e, w1) \<Rightarrow> (Inl e, w1)
      | (Inr i, w1) \<Rightarrow>
          if 255 < char_length (TaskItem.Title item)
          then (Inl (driver_error ''value too long for type character varying(255)''), w1)
          else if i \<in> set (map task_items_row.id (tbl_task_items w1))
          then (Inl (driver_error ''duplicate key value violates unique constraint task_items_pkey''), w1)
          else if TaskItem.TaskID item \<notin> set (map tasks_row.id (tbl_tasks w1))
          then (Inl (driver_error ''violates foreign key constraint fk_task_items_task_id''), w1)
          else (Inr (item\<lparr>TaskItem.ID := i\<rparr>),
                w1\<lparr>tbl_task_items := tbl_task_items w1 @
                   [\<lparr>task_items_row.id = i, task_id = TaskItem.TaskID item,
                     title = TaskItem.Title item, completed = TaskItem.Completed item,
                     created_at = pg_timestamp (TaskItem.CreatedAt item),
                     updated_at = pg_timestamp (TaskItem.UpdatedAt item)\<rparr>]\<rparr>))"

text \<open>The rows of one multi-row \<^verbatim>\<open>INSERT\<close>, in order, stopping at the first failure.\<close>

fun insert_task_items_rows :: "TaskItem list \<Rightarrow> world \<Rightarrow> (error + TaskItem list) \<times> world" where
  "insert_task_items_rows [] w = (Inr [], w)"
| "insert_task_items_rows (item # rest) w =
     (case insert_task_items_row item w of
        (Inl e, w1) \<Rightarrow> (Inl e, w1)
      | (Inr item1, w1) \<Rightarrow>
          (case insert_task_items_rows rest w1 of
             (Inl e, w2) \<Rightarrow> (Inl e, w2)
           | (Inr rest1, w2) \<Rightarrow> (Inr (item1 # rest1), w2)))"

text \<open>
  \<^verbatim>\<open>tx.NewInsert().Model(&task.Items).Exec(ctx)\<close>: one round trip, one statement for
  the whole batch. A statement that fails leaves no row behind, and the items of the caller
  keep the identifiers they had.
\<close>

definition insert_items :: "TaskItem slice \<Rightarrow> world \<Rightarrow> (error + TaskItem slice) \<times> world" where
  "insert_items items w =
     (case round_trip w of
        (Some e, w1) \<Rightarrow> (Inl e, w1)
      | (None, w1) \<Rightarrow>
          (case insert_task_items_rows (elems items) w1 of
             (Inl e, w2) \<Rightarrow> (Inl e, w2\<lparr>tbl_task_items := tbl_task_items w1\<rparr>)
           | (Inr items1, w2) \<Rightarrow> (Inr (Slice items1), w2)))"

text \<open>
  \<^verbatim>\<open>ROLLBACK\<close>: one round trip whose outcome bun ignores; the tables are as they were
  when the transaction began.
\<close>

definition rollback :: "world \<Rightarrow> world \<Rightarrow> world" where
  "rollback begun w =
     (snd (round_trip w))\<lparr>tbl_tasks := tbl_tasks begun, tbl_task_items := tbl_task_items begun\<rparr>"

text \<open>
  \<^verbatim>\<open>db.RunInTx(ctx, nil, fn)\<close>: \<^verbatim>\<open>BEGIN\<close>; run \<^verbatim>\<open>fn\<close>; roll back when it returns
  an error, else \<^verbatim>\<open>COMMIT\<close>; a commit that fails leaves nothing committed. The value
  \<^verbatim>\<open>x\<close> is what the closure captures by reference and mutates.
\<close>

definition RunInTx ::
  "'a \<Rightarrow> ('a \<Rightarrow> world \<Rightarrow> (error option \<times> 'a) \<times> world) \<Rightarrow> world \<Rightarrow> (error option \<times> 'a) \<times> world"
where
  "RunInTx x fn w =
     (case round_trip w of
        (Some e, w1) \<Rightarrow> ((Some e, x), w1)
      | (None, w1) \<Rightarrow>
          (case fn x w1 of
             ((Some e, x1), w2) \<Rightarrow> ((Some e, x1), rollback w1 w2)
           | ((None, x1), w2) \<Rightarrow>
               (case round_trip w2 of
                  (Some e, w3) \<Rightarrow> ((Some e, x1), w3\<lparr>tbl_tasks := tbl_tasks w1, tbl_task_items := tbl_task_items w1\<rparr>)
                | (None, w3) \<Rightarrow> ((None, x1), w3))))"

text \<open>
  \<^verbatim>\<open>DELETE FROM tasks WHERE id = ?\<close>: one round trip. The rows of \<^verbatim>\<open>task_items\<close>
  that refer to a deleted task go with it (\<^verbatim>\<open>ON DELETE CASCADE\<close>); the result counts the
  rows of \<^verbatim>\<open>tasks\<close> only.
\<close>

record sql_Result =
  RowsAffected :: "error + int64"

definition exec_delete :: "int64 \<Rightarrow> world \<Rightarrow> (error + sql_Result) \<times> world" where
  "exec_delete taskID w =
     (case round_trip w of
        (Some e, w1) \<Rightarrow> (Inl e, w1)
      | (None, w1) \<Rightarrow>
          (Inr \<lparr>RowsAffected =
                  Inr (int (length (filter (\<lambda>r. tasks_row.id r = taskID) (tbl_tasks w1))))\<rparr>,
           w1\<lparr>tbl_tasks := filter (\<lambda>r. tasks_row.id r \<noteq> taskID) (tbl_tasks w1),
              tbl_task_items := filter (\<lambda>r. task_items_row.task_id r \<noteq> taskID) (tbl_task_items w1)\<rparr>))"

text \<open>Scanning rows into models.\<close>

definition scan_item :: "task_items_row \<Rightarrow> TaskItem" where
  "scan_item r =
     \<lparr>TaskItem.ID = task_items_row.id r, TaskID = task_items_row.task_id r,
      Title = task_items_row.title r, Completed = task_items_row.completed r,
      CreatedAt = task_items_row.created_at r, UpdatedAt = task_items_row.updated_at r\<rparr>"

text \<open>
  \<^verbatim>\<open>Relation("Items")\<close>: the rows of \<^verbatim>\<open>task_items\<close> whose \<^verbatim>\<open>task_id\<close> is the task's
  \<^verbatim>\<open>id\<close>, appended to the task's slice in the order the query yields them. The query
  carries no \<^verbatim>\<open>ORDER BY\<close>. A task without item rows keeps its \<^verbatim>\<open>nil\<close> slice.
\<close>

definition relation_Items :: "int64 \<Rightarrow> world \<Rightarrow> TaskItem slice" where
  "relation_Items taskID w =
     (case filter (\<lambda>r. task_items_row.task_id r = taskID) (tbl_task_items w) of
        [] \<Rightarrow> nil
      | r # rs \<Rightarrow> Slice (map scan_item (r # rs)))"

definition scan_task :: "tasks_row \<Rightarrow> world \<Rightarrow> Task" where
  "scan_task r w =
     \<lparr>Task.ID = tasks_row.id r, Title = tasks_row.title r,
      Description = tasks_row.description r,
      CreatedAt = tasks_row.created_at r, UpdatedAt = tasks_row.updated_at r,
      Items = relation_Items (tasks_row.id r) w\<rparr>"

section \<open>Repository (\<^verbatim>\<open>internal/app/db/pg_task.go\<close>)\<close>

text \<open>The interface \<^verbatim>\<open>TaskRepository\<close>, over any state the implementation works on.\<close>

record 's TaskRepository =
  Create :: "Task \<Rightarrow> 's \<Rightarrow> (error option \<times> Task) \<times> 's"
  Delete :: "int64 \<Rightarrow> 's \<Rightarrow> error option \<times> 's"
  GetByID :: "int64 \<Rightarrow> 's \<Rightarrow> (error + Task) \<times> 's"
  List :: "'s \<Rightarrow> (error + Task slice) \<times> 's"

text \<open>
  The closure that \<^verbatim>\<open>Create\<close> hands to \<^verbatim>\<open>RunInTx\<close>. It returns the error and the
  task as the closure has left it.
\<close>

definition Create_fn :: "Task \<Rightarrow> world \<Rightarrow> (error option \<times> Task) \<times> world" where
  "Create_fn task0 tx =
     (let now = wall_clock tx;
          task = task0\<lparr>Task.CreatedAt := now, Task.UpdatedAt := now\<rparr>
      in case insert_task task tx of
           (Inl err, tx1) \<Rightarrow> ((Some err, task), tx1)
         | (Inr task1, tx1) \<Rightarrow>
             if 0 < len (Task.Items task1) then
               (let task2 = task1\<lparr>Task.Items :=
                       Slice (map (\<lambda>item. item\<lparr>TaskItem.TaskID := Task.ID task1,
                                                 TaskItem.CreatedAt := now,
                                                 TaskItem.UpdatedAt := now\<rparr>)
                                  (elems (Task.Items task1)))\<rparr>
                in case insert_items (Task.Items task2) tx1 of
                     (Inl err, tx2) \<Rightarrow> ((Some err, task2), tx2)
                   | (Inr items, tx2) \<Rightarrow> ((None, task2\<lparr>Task.Items := items\<rparr>), tx2))
             else ((None, task1), tx1))"

definition taskRepository_Create :: "Task \<Rightarrow> world \<Rightarrow> (error option \<times> Task) \<times> world" where
  "taskRepository_Create task w = RunInTx task Create_fn w"

definition taskRepository_Delete :: "int64 \<Rightarrow> world \<Rightarrow> error option \<times> world" where
  "taskRepository_Delete taskID w =
     (case exec_delete taskID w of
        (Inl err, w1) \<Rightarrow> (Some err, w1)
      | (Inr result, w1) \<Rightarrow>
          (case RowsAffected result of
             Inl err \<Rightarrow> (Some err, w1)
           | Inr rowsAffected \<Rightarrow>
               if rowsAffected = 0 then (Some ErrTaskNotFound, w1) else (None, w1)))"

text \<open>
  \<^verbatim>\<open>Scan\<close> of one task: the query on \<^verbatim>\<open>tasks\<close>, which fails with
  \<^verbatim>\<open>sql.ErrNoRows\<close> when no row matches, then the query of the relation.
\<close>

definition taskRepository_GetByID :: "int64 \<Rightarrow> world \<Rightarrow> (error + Task) \<times> world" where
  "taskRepository_GetByID taskID w =
     (case round_trip w of
        (Some err, w1) \<Rightarrow> (Inl err, w1)
      | (None, w1) \<Rightarrow>
          (case find (\<lambda>r. tasks_row.id r = taskID) (tbl_tasks w1) of
             None \<Rightarrow> (Inl sql_ErrNoRows, w1)
           | Some r \<Rightarrow>
               (case round_trip w1 of
                  (Some err, w2) \<Rightarrow> (Inl err, w2)
                | (None, w2) \<Rightarrow> (Inr (scan_task r w2), w2))))"

text \<open>
  \<^verbatim>\<open>Scan\<close> of all tasks, \<^verbatim>\<open>ORDER BY t.created_at DESC\<close>; the query of the relation
  is made only when there are tasks. With no rows the slice stays \<^verbatim>\<open>nil\<close> and there is
  no error.
\<close>

definition taskRepository_List :: "world \<Rightarrow> (error + Task slice) \<times> world" where
  "taskRepository_List w =
     (case round_trip w of
        (Some err, w1) \<Rightarrow> (Inl err, w1)
      | (None, w1) \<Rightarrow>
          (case sort_key (\<lambda>r. - tasks_row.created_at r) (tbl_tasks w1) of
             [] \<Rightarrow> (Inr nil, w1)
           | r # rs \<Rightarrow>
               (case round_trip w1 of
                  (Some err, w2) \<Rightarrow> (Inl err, w2)
                | (None, w2) \<Rightarrow> (Inr (Slice (map (\<lambda>r. scan_task r w2) (r # rs))), w2))))"

definition NewTaskRepository :: "world TaskRepository" where
  "NewTaskRepository =
     \<lparr>Create = taskRepository_Create, Delete = taskRepository_Delete,
      GetByID = taskRepository_GetByID, List = taskRepository_List\<rparr>"

section \<open>Use-case (\<^verbatim>\<open>internal/app/usecases\<close>)\<close>

record CreateTaskItemParams =
  Title :: string
  Completed :: bool

record CreateTaskParams =
  Title :: string
  Description :: string
  Items :: "CreateTaskItemParams slice"

record TaskItemResult =
  ID :: int64
  TaskID :: int64
  Title :: string
  Completed :: bool
  CreatedAt :: time
  UpdatedAt :: time

record TaskResult =
  ID :: int64
  Title :: string
  Description :: string
  CreatedAt :: time
  UpdatedAt :: time
  Items :: "TaskItemResult slice"

record TaskListResult =
  Tasks :: "TaskResult slice"

text \<open>The interface \<^verbatim>\<open>TaskUsecase\<close>.\<close>

record 's TaskUsecase =
  CreateTask :: "CreateTaskParams \<Rightarrow> 's \<Rightarrow> (error + TaskResult) \<times> 's"
  DeleteTask :: "int64 \<Rightarrow> 's \<Rightarrow> error option \<times> 's"
  GetTask :: "int64 \<Rightarrow> 's \<Rightarrow> (error + TaskResult) \<times> 's"
  ListTasks :: "'s \<Rightarrow> (error + TaskListResult) \<times> 's"

text \<open>The loop of \<^verbatim>\<open>modelToResult\<close> over \<^verbatim>\<open>task.Items\<close>, with the slice built so far.\<close>

fun modelToResult_loop :: "TaskItem list \<Rightarrow> TaskItemResult slice \<Rightarrow> TaskItemResult slice" where
  "modelToResult_loop [] items = items"
| "modelToResult_loop (item # rest) items =
     modelToResult_loop rest
       (append_slice items
          \<lparr>TaskItemResult.ID = TaskItem.ID item, TaskID = TaskItem.TaskID item,
           Title = TaskItem.Title item, Completed = TaskItem.Completed item,
           CreatedAt = TaskItem.CreatedAt item, UpdatedAt = TaskItem.UpdatedAt item\<rparr>)"

definition modelToResult :: "Task \<Rightarrow> TaskResult" where
  "modelToResult task =
     (let items = modelToResult_loop (elems (Task.Items task)) (make_slice (len (Task.Items task)))
      in \<lparr>TaskResult.ID = Task.ID task, Title = Task.Title task,
          Description = Task.Description task,
          CreatedAt = Task.CreatedAt task, UpdatedAt = Task.UpdatedAt task,
          Items = items\<rparr>)"

text \<open>
  The loop of \<^verbatim>\<open>CreateTask\<close> over \<^verbatim>\<open>params.Items\<close>: it returns at the first empty
  title, else appends a fresh item (identifiers and timestamps at their zero values).
\<close>

fun CreateTask_loop :: "CreateTaskItemParams list \<Rightarrow> TaskItem slice \<Rightarrow> error + TaskItem slice" where
  "CreateTask_loop [] items = Inr items"
| "CreateTask_loop (itemParam # rest) items =
     (if CreateTaskItemParams.Title itemParam = ''''
      then Inl (errors_New ''task item title is required'')
      else CreateTask_loop rest
             (append_slice items
                \<lparr>TaskItem.ID = 0, TaskID = 0,
                 Title = CreateTaskItemParams.Title itemParam,
                 Completed = CreateTaskItemParams.Completed itemParam,
                 CreatedAt = 0, UpdatedAt = 0\<rparr>))"

definition taskUsecase_CreateTask ::
  "'s TaskRepository \<Rightarrow> CreateTaskParams \<Rightarrow> 's \<Rightarrow> (error + TaskResult) \<times> 's"
where
  "taskUsecase_CreateTask taskRepo params s =
     (if CreateTaskParams.Title params = ''''
      then (Inl (errors_New ''task title is required''), s)
      else
        (case CreateTask_loop (elems (CreateTaskParams.Items params))
                (make_slice (len (CreateTaskParams.Items params))) of
           Inl err \<Rightarrow> (Inl err, s)
         | Inr items \<Rightarrow>
             (let task = \<lparr>Task.ID = 0, Title = CreateTaskParams.Title params,
                          Description = CreateTaskParams.Description params,
                          CreatedAt = 0, UpdatedAt = 0, Items = items\<rparr>
              in case Create taskRepo task s of
                   ((Some err, task1), s1) \<Rightarrow> (Inl err, s1)
                 | ((None, task1), s1) \<Rightarrow> (Inr (modelToResult task1), s1))))"

definition taskUsecase_DeleteTask :: "'s TaskRepository \<Rightarrow> int64 \<Rightarrow> 's \<Rightarrow> error option \<times> 's" where
  "taskUsecase_DeleteTask taskRepo taskID s =
     (if taskID \<le> 0 then (Some (errors_New ''invalid task ID''), s)
      else Delete taskRepo taskID s)"

definition taskUsecase_GetTask ::
  "'s TaskRepository \<Rightarrow> int64 \<Rightarrow> 's \<Rightarrow> (error + TaskResult) \<times> 's"
where
  "taskUsecase_GetTask taskRepo taskID s =
     (if taskID \<le> 0 then (Inl (errors_New ''invalid task ID''), s)
      else
        (case GetByID taskRepo taskID s of
           (Inl err, s1) \<Rightarrow> (Inl err, s1)
         | (Inr task, s1) \<Rightarrow> (Inr (modelToResult task), s1)))"

fun ListTasks_loop :: "Task list \<Rightarrow> TaskResult slice \<Rightarrow> TaskResult slice" where
  "ListTasks_loop [] results = results"
| "ListTasks_loop (task # rest) results =
     ListTasks_loop rest (append_slice results (modelToResult task))"

definition taskUsecase_ListTasks :: "'s TaskRepository \<Rightarrow> 's \<Rightarrow> (error + TaskListResult) \<times> 's" where
  "taskUsecase_ListTasks taskRepo s =
     (case List taskRepo s of
        (Inl err, s1) \<Rightarrow> (Inl err, s1)
      | (Inr tasks, s1) \<Rightarrow>
          (let results = ListTasks_loop (elems tasks) (make_slice (len tasks))
           in (Inr \<lparr>Tasks = results\<rparr>, s1)))"

definition NewTaskUsecase :: "'s TaskRepository \<Rightarrow> 's TaskUsecase" where
  "NewTaskUsecase taskRepo =
     \<lparr>CreateTask = taskUsecase_CreateTask taskRepo,
      DeleteTask = taskUsecase_DeleteTask taskRepo,
      GetTask = taskUsecase_GetTask taskRepo,
      ListTasks = taskUsecase_ListTasks taskRepo\<rparr>"

section \<open>HTTP adapter (\<^verbatim>\<open>internal/app/handlers\<close>)\<close>

record createTaskItemHTTPRequest =
  Title :: string
  Completed :: bool

record createTaskHTTPRequest =
  Title :: string
  Description :: string
  Items :: "createTaskItemHTTPRequest slice"

record taskItemHTTPResponse =
  ID :: int64
  TaskID :: int64
  Title :: string
  Completed :: bool
  CreatedAt :: time
  UpdatedAt :: time

record taskHTTPResponse =
  ID :: int64
  Title :: string
  Description :: string
  CreatedAt :: time
  UpdatedAt :: time
  Items :: "taskItemHTTPResponse slice"

record taskListHTTPResponse =
  Tasks :: "taskHTTPResponse slice"

type_synonym validationErrorResponse = "string \<rightharpoonup> string"

record errorResponse =
  Error :: string

text \<open>
  What a handler hands to \<^verbatim>\<open>c.JSON(code, obj)\<close>: the status code and the object to be
  serialised.
\<close>

datatype payload =
    JSON_task taskHTTPResponse
  | JSON_taskList taskListHTTPResponse
  | JSON_validation validationErrorResponse
  | JSON_error errorResponse
  | JSON_nil

record response =
  status :: int
  payload :: payload

definition c_JSON :: "int \<Rightarrow> payload \<Rightarrow> response" where
  "c_JSON code obj = \<lparr>status = code, payload = obj\<rparr>"

abbreviation StatusOK :: int where "StatusOK \<equiv> 200"
abbreviation StatusCreated :: int where "StatusCreated \<equiv> 201"
abbreviation StatusNoContent :: int where "StatusNoContent \<equiv> 204"
abbreviation StatusBadRequest :: int where "StatusBadRequest \<equiv> 400"
abbreviation StatusNotFound :: int where "StatusNotFound \<equiv> 404"
abbreviation StatusInternalServerError :: int where "StatusInternalServerError \<equiv> 500"

text \<open>
  \<^verbatim>\<open>strings.ToLower\<close> on a string of one byte: an ASCII capital becomes the small
  letter, any other ASCII byte stays, and a byte from 0x80 on, which alone is not valid
  UTF-8, becomes the replacement character U+FFFD.
\<close>

definition strings_ToLower1 :: "char \<Rightarrow> string" where
  "strings_ToLower1 c =
     (if 65 \<le> (of_char c :: nat) \<and> (of_char c :: nat) \<le> 90
      then [char_of ((of_char c :: nat) + 32)]
      else if (of_char c :: nat) < 128 then [c]
      else [CHR 0xEF, CHR 0xBF, CHR 0xBD])"

fun toJSONFieldName :: "string \<Rightarrow> string" where
  "toJSONFieldName [] = []"
| "toJSONFieldName (c # rest) = strings_ToLower1 c @ rest"

definition getValidationErrorMessage :: "FieldError \<Rightarrow> string" where
  "getValidationErrorMessage fe =
     (if Tag fe = ''required'' then ''required''
      else if Tag fe = ''email'' then ''invalid email''
      else if Tag fe = ''min'' then ''too short''
      else if Tag fe = ''max'' then ''too long''
      else if Tag fe = ''len'' then ''invalid length''
      else if Tag fe = ''numeric'' then ''must be numeric''
      else if Tag fe = ''alpha'' then ''must contain only letters''
      else if Tag fe = ''alphanum'' then ''must contain only letters and numbers''
      else ''invalid'')"

text \<open>The loop of \<^verbatim>\<open>respondWithValidationError\<close> over the field errors, filling the map.\<close>

fun respondWithValidationError_loop ::
  "FieldError list \<Rightarrow> validationErrorResponse \<Rightarrow> validationErrorResponse"
where
  "respondWithValidationError_loop [] m = m"
| "respondWithValidationError_loop (fe # rest) m =
     respondWithValidationError_loop rest
       (m(toJSONFieldName (Field fe) \<mapsto> getValidationErrorMessage fe))"

definition respondWithValidationError :: "error \<Rightarrow> response" where
  "respondWithValidationError err =
     (case err of
        validator_ValidationErrors ve \<Rightarrow>
          c_JSON StatusBadRequest
            (JSON_validation (respondWithValidationError_loop ve Map.empty))
      | _ \<Rightarrow> c_JSON StatusBadRequest (JSON_error \<lparr>Error = Error_msg err\<rparr>))"

definition respondWithError :: "int \<Rightarrow> string \<Rightarrow> response" where
  "respondWithError statusCode message = c_JSON statusCode (JSON_error \<lparr>Error = message\<rparr>)"

text \<open>
  The \<^verbatim>\<open>binding\<close> tags of \<^verbatim>\<open>createTaskHTTPRequest\<close>: \<^verbatim>\<open>Title\<close> is
  \<^verbatim>\<open>required\<close>, which a zero value (the empty string) fails. \<^verbatim>\<open>Items\<close> carries no
  \<^verbatim>\<open>binding\<close> tag, so the validator does not descend into its elements and the
  \<^verbatim>\<open>required\<close> tag of an item's title is not checked here.
\<close>

definition validate_createTaskHTTPRequest :: "createTaskHTTPRequest \<Rightarrow> FieldError list" where
  "validate_createTaskHTTPRequest req =
     (if createTaskHTTPRequest.Title req = ''''
      then [\<lparr>Field = ''Title'', Tag = ''required''\<rparr>] else [])"

text \<open>
  \<^verbatim>\<open>c.ShouldBindJSON(&req)\<close>. Its argument is the outcome of decoding the body into
  \<^verbatim>\<open>createTaskHTTPRequest\<close>: an error for a body that is not JSON of that shape, else
  the request with absent members at their zero values. Validation follows decoding.
\<close>

definition ShouldBindJSON :: "error + createTaskHTTPRequest \<Rightarrow> error + createTaskHTTPRequest" where
  "ShouldBindJSON decoded =
     (case decoded of
        Inl err \<Rightarrow> Inl err
      | Inr req \<Rightarrow>
          (case validate_createTaskHTTPRequest req of
             [] \<Rightarrow> Inr req
           | fe # fes \<Rightarrow> Inl (validator_ValidationErrors (fe # fes))))"

text \<open>
  \<^verbatim>\<open>strconv.ParseInt(s, 10, 64)\<close>: an optional sign, then one or more decimal digits,
  and a value that fits 64 bits; anything else is a \<^verbatim>\<open>NumError\<close>, whose kind this code
  does not tell apart.
\<close>

fun digits_value :: "string \<Rightarrow> int \<Rightarrow> int option" where
  "digits_value [] n = Some n"
| "digits_value (c # cs) n =
     (if 48 \<le> (of_char c :: int) \<and> (of_char c :: int) \<le> 57
      then digits_value cs (10 * n + ((of_char c :: int) - 48))
      else None)"

definition strconv_ParseInt :: "string \<Rightarrow> error + int64" where
  "strconv_ParseInt s =
     (let neg = (take 1 s = ''-'');
          s1 = (if take 1 s = ''+'' \<or> take 1 s = ''-'' then drop 1 s else s)
      in if s1 = [] then Inl (strconv_NumError s)
         else
           (case digits_value s1 0 of
              None \<Rightarrow> Inl (strconv_NumError s)
            | Some un \<Rightarrow>
                if \<not> neg \<and> 2 ^ 63 \<le> un then Inl (strconv_NumError s)
                else if neg \<and> 2 ^ 63 < un then Inl (strconv_NumError s)
                else Inr (if neg then - un else un)))"

text \<open>The loop of \<^verbatim>\<open>requestToParams\<close>.\<close>

fun requestToParams_loop ::
  "createTaskItemHTTPRequest list \<Rightarrow> CreateTaskItemParams slice \<Rightarrow> CreateTaskItemParams slice"
where
  "requestToParams_loop [] items = items"
| "requestToParams_loop (itemReq # rest) items =
     requestToParams_loop rest
       (append_slice items
          \<lparr>CreateTaskItemParams.Title = createTaskItemHTTPRequest.Title itemReq,
           Completed = createTaskItemHTTPRequest.Completed itemReq\<rparr>)"

definition requestToParams :: "createTaskHTTPRequest \<Rightarrow> CreateTaskParams" where
  "requestToParams req =
     (let items = requestToParams_loop (elems (createTaskHTTPRequest.Items req))
                    (make_slice (len (createTaskHTTPRequest.Items req)))
      in \<lparr>CreateTaskParams.Title = createTaskHTTPRequest.Title req,
          Description = createTaskHTTPRequest.Description req,
          Items = items\<rparr>)"

text \<open>The loop of \<^verbatim>\<open>resultToResponse\<close>.\<close>

fun resultToResponse_loop ::
  "TaskItemResult list \<Rightarrow> taskItemHTTPResponse slice \<Rightarrow> taskItemHTTPResponse slice"
where
  "resultToResponse_loop [] items = items"
| "resultToResponse_loop (item # rest) items =
     resultToResponse_loop rest
       (append_slice items
          \<lparr>taskItemHTTPResponse.ID = TaskItemResult.ID item,
           TaskID = TaskItemResult.TaskID item,
           Title = TaskItemResult.Title item,
           Completed = TaskItemResult.Completed item,
           CreatedAt = TaskItemResult.CreatedAt item,
           UpdatedAt = TaskItemResult.UpdatedAt item\<rparr>)"

definition resultToResponse :: "TaskResult \<Rightarrow> taskHTTPResponse" where
  "resultToResponse result =
     (let items = resultToResponse_loop (elems (TaskResult.Items result))
                    (make_slice (len (TaskResult.Items result)))
      in \<lparr>taskHTTPResponse.ID = TaskResult.ID result,
          Title = TaskResult.Title result,
          Description = TaskResult.Description result,
          CreatedAt = TaskResult.CreatedAt result,
          UpdatedAt = TaskResult.UpdatedAt result,
          Items = items\<rparr>)"

text \<open>The loop of \<^verbatim>\<open>listResultToResponse\<close>.\<close>

fun listResultToResponse_loop ::
  "TaskResult list \<Rightarrow> taskHTTPResponse slice \<Rightarrow> taskHTTPResponse slice"
where
  "listResultToResponse_loop [] tasks = tasks"
| "listResultToResponse_loop (task # rest) tasks =
     listResultToResponse_loop rest (append_slice tasks (resultToResponse task))"

definition listResultToResponse :: "TaskListResult \<Rightarrow> taskListHTTPResponse" where
  "listResultToResponse result =
     (let tasks = listResultToResponse_loop (elems (TaskListResult.Tasks result))
                    (make_slice (len (TaskListResult.Tasks result)))
      in \<lparr>taskListHTTPResponse.Tasks = tasks\<rparr>)"

text \<open>
  The handlers. Each takes the use-case it was built with, what gin extracted from the
  request (the decoded body, or the \<^verbatim>\<open>:id\<close> path parameter), and the state.
\<close>

definition HTTPTaskHandler_CreateTask ::
  "'s TaskUsecase \<Rightarrow> error + createTaskHTTPRequest \<Rightarrow> 's \<Rightarrow> response \<times> 's"
where
  "HTTPTaskHandler_CreateTask taskUsecase decoded s =
     (case ShouldBindJSON decoded of
        Inl err \<Rightarrow> (respondWithValidationError err, s)
      | Inr req \<Rightarrow>
          (let params = requestToParams req
           in case CreateTask taskUsecase params s of
                (Inl err, s1) \<Rightarrow> (respondWithError StatusInternalServerError (Error_msg err), s1)
              | (Inr result, s1) \<Rightarrow>
                  (c_JSON StatusCreated (JSON_task (resultToResponse result)), s1)))"

definition HTTPTaskHandler_GetTask :: "'s TaskUsecase \<Rightarrow> string \<Rightarrow> 's \<Rightarrow> response \<times> 's" where
  "HTTPTaskHandler_GetTask taskUsecase idStr s =
     (case strconv_ParseInt idStr of
        Inl err \<Rightarrow> (respondWithError StatusBadRequest ''invalid task ID'', s)
      | Inr taskID \<Rightarrow>
          (case GetTask taskUsecase taskID s of
             (Inl err, s1) \<Rightarrow>
               if errors_Is err sql_ErrNoRows
               then (respondWithError StatusNotFound ''task not found'', s1)
               else (respondWithError StatusInternalServerError (Error_msg err), s1)
           | (Inr result, s1) \<Rightarrow> (c_JSON StatusOK (JSON_task (resultToResponse result)), s1)))"

definition HTTPTaskHandler_ListTasks :: "'s TaskUsecase \<Rightarrow> 's \<Rightarrow> response \<times> 's" where
  "HTTPTaskHandler_ListTasks taskUsecase s =
     (case ListTasks taskUsecase s of
        (Inl err, s1) \<Rightarrow> (respondWithError StatusInternalServerError (Error_msg err), s1)
      | (Inr result, s1) \<Rightarrow>
          (c_JSON StatusOK (JSON_taskList (listResultToResponse result)), s1))"

definition HTTPTaskHandler_DeleteTask :: "'s TaskUsecase \<Rightarrow> string \<Rightarrow> 's \<Rightarrow> response \<times> 's" where
  "HTTPTaskHandler_DeleteTask taskUsecase idStr s =
     (case strconv_ParseInt idStr of
        Inl err \<Rightarrow> (respondWithError StatusBadRequest ''invalid task ID'', s)
      | Inr taskID \<Rightarrow>
          (case DeleteTask taskUsecase taskID s of
             (Some err, s1) \<Rightarrow>
               if errors_Is err ErrTaskNotFound
               then (respondWithError StatusNotFound ''task not found'', s1)
               else (respondWithError StatusInternalServerError (Error_msg err), s1)
           | (None, s1) \<Rightarrow> (c_JSON StatusNoContent JSON_nil, s1)))"

text \<open>
  \<^verbatim>\<open>encoding/json\<close> on the response structs, with the member names of their
  \<^verbatim>\<open>json\<close> tags: a \<^verbatim>\<open>nil\<close> slice is written as \<^verbatim>\<open>null\<close>, any other slice as an
  array.
\<close>

datatype json =
    JNull
  | JBool bool
  | JNumber int
  | JString string
  | JTime time
  | JArray "json list"
  | JObject "(string \<times> json) list"

definition json_slice :: "('a \<Rightarrow> json) \<Rightarrow> 'a slice \<Rightarrow> json" where
  "json_slice enc s = (case s of nil \<Rightarrow> JNull | Slice xs \<Rightarrow> JArray (map enc xs))"

definition json_taskItemHTTPResponse :: "taskItemHTTPResponse \<Rightarrow> json" where
  "json_taskItemHTTPResponse item =
     JObject [(''id'', JNumber (taskItemHTTPResponse.ID item)),
              (''task_id'', JNumber (taskItemHTTPResponse.TaskID item)),
              (''title'', JString (taskItemHTTPResponse.Title item)),
              (''completed'', JBool (taskItemHTTPResponse.Completed item)),
              (''created_at'', JTime (taskItemHTTPResponse.CreatedAt item)),
              (''updated_at'', JTime (taskItemHTTPResponse.UpdatedAt item))]"

definition json_taskHTTPResponse :: "taskHTTPResponse \<Rightarrow> json" where
  "json_taskHTTPResponse task =
     JObject [(''id'', JNumber (taskHTTPResponse.ID task)),
              (''title'', JString (taskHTTPResponse.Title task)),
              (''description'', JString (taskHTTPResponse.Description task)),
              (''created_at'', JTime (taskHTTPResponse.CreatedAt task)),
              (''updated_at'', JTime (taskHTTPResponse.UpdatedAt task)),
              (''items'', json_slice json_taskItemHTTPResponse (taskHTTPResponse.Items task))]"

definition json_taskListHTTPResponse :: "taskListHTTPResponse \<Rightarrow> json" where
  "json_taskListHTTPResponse list =
     JObject [(''tasks'', json_slice json_taskHTTPResponse (taskListHTTPResponse.Tasks list))]"

text \<open>The member of a JSON object under a name.\<close>

fun json_member :: "json \<Rightarrow> string \<Rightarrow> json option" where
  "json_member (JObject ms) name = map_of ms name"
| "json_member _ name = None"

section \<open>Notions used in the statements\<close>

text \<open>
  The world right after the migration: empty tables, unused sequences, no round trip made
  yet; the clock and the behaviour of the connection are arbitrary.
\<close>

definition new_world :: "time \<Rightarrow> string option list \<Rightarrow> world" where
  "new_world now fs =
     \<lparr>tbl_tasks = [], tbl_task_items = [], tasks_id_seq = 0, task_items_id_seq = 0,
      wall_clock = now, round_trips = 0, faults = fs\<rparr>"

text \<open>What the connection does on the next round trip.\<close>

definition next_fault :: "world \<Rightarrow> string option" where
  "next_fault w = (case faults w of [] \<Rightarrow> None | f # fs \<Rightarrow> f)"

text \<open>
  The rows that a task and an item leave in the tables, with the timestamps as the columns
  keep them.
\<close>

definition tasks_row_of :: "Task \<Rightarrow> tasks_row" where
  "tasks_row_of task =
     \<lparr>tasks_row.id = Task.ID task, title = Task.Title task,
      description = Task.Description task,
      created_at = pg_timestamp (Task.CreatedAt task),
      updated_at = pg_timestamp (Task.UpdatedAt task)\<rparr>"

definition task_items_row_of :: "TaskItem \<Rightarrow> task_items_row" where
  "task_items_row_of item =
     \<lparr>task_items_row.id = TaskItem.ID item, task_id = TaskItem.TaskID item,
      title = TaskItem.Title item, completed = TaskItem.Completed item,
      created_at = pg_timestamp (TaskItem.CreatedAt item),
      updated_at = pg_timestamp (TaskItem.UpdatedAt item)\<rparr>"

text \<open>
  The specification's table of validation messages, and its lowercase-first-letter form of
  a field name.
\<close>

definition spec_tag_messages :: "(string \<times> string) list" where
  "spec_tag_messages =
     [(''required'', ''required''), (''email'', ''invalid email''), (''min'', ''too short''),
      (''max'', ''too long''), (''len'', ''invalid length''), (''numeric'', ''must be numeric''),
      (''alpha'', ''must contain only letters''),
      (''alphanum'', ''must contain only letters and numbers'')]"

definition spec_message :: "string \<Rightarrow> string" where
  "spec_message tag = (case map_of spec_tag_messages tag of Some m \<Rightarrow> m | None \<Rightarrow> ''invalid'')"

definition ascii_lower :: "char \<Rightarrow> char" where
  "ascii_lower c =
     (if 65 \<le> (of_char c :: nat) \<and> (of_char c :: nat) \<le> 90
      then char_of ((of_char c :: nat) + 32) else c)"

fun spec_lower_first :: "string \<Rightarrow> string" where
  "spec_lower_first [] = []"
| "spec_lower_first (c # rest) = ascii_lower c # rest"

text \<open>A field name that is empty or starts with an ASCII byte, as Go identifiers written in ASCII do.\<close>

fun starts_ascii :: "string \<Rightarrow> bool" where
  "starts_ascii [] = True"
| "starts_ascii (c # rest) = ((of_char c :: nat) < 128)"

text \<open>
  The item rows are stored in strictly ascending order of \<^verbatim>\<open>id\<close>, and no \<^verbatim>\<open>id\<close> is
  beyond what the sequence has handed out.
\<close>

definition items_in_id_order :: "world \<Rightarrow> bool" where
  "items_in_id_order w =
     (sorted_wrt (<) (map task_items_row.id (tbl_task_items w)) \<and>
      list_all (\<lambda>r. task_items_row.id r \<le> int (task_items_id_seq w)) (tbl_task_items w))"


text \<open>A world with one task that has one item, as a successful \<^verbatim>\<open>Create\<close> leaves it.\<close>

definition one_task_world :: world where
  "one_task_world =
     \<lparr>tbl_tasks = [\<lparr>tasks_row.id = 1, title = ''Shopping'', description = ''Weekly shopping'',
                    created_at = 7000, updated_at = 7000\<rparr>],
      tbl_task_items = [\<lparr>task_items_row.id = 1, task_id = 1, title = ''Buy milk'',
                         completed = False, created_at = 7000, updated_at = 7000\<rparr>],
      tasks_id_seq = 1, task_items_id_seq = 1, wall_clock = 8000, round_trips = 4, faults = []\<rparr>"

text \<open>The task of the repository's own test, before it is stored.\<close>

definition shopping :: Task where
  "shopping =
     \<lparr>Task.ID = 0, Title = ''Shopping'', Description = ''Weekly shopping'',
      CreatedAt = 0, UpdatedAt = 0,
      Items = Slice
        [\<lparr>TaskItem.ID = 0, TaskID = 0, Title = ''Buy milk'', Completed = False,
          CreatedAt = 0, UpdatedAt = 0\<rparr>,
         \<lparr>TaskItem.ID = 0, TaskID = 0, Title = ''Buy bread'', Completed = True,
          CreatedAt = 0, UpdatedAt = 0\<rparr>]\<rparr>"

text \<open>A world with an older task that has one item and a newer task that has none.\<close>

definition two_task_world :: world where
  "two_task_world =
     \<lparr>tbl_tasks = [\<lparr>tasks_row.id = 1, title = ''Shopping'', description = ''Weekly shopping'',
                    created_at = 7000, updated_at = 7000\<rparr>,
                   \<lparr>tasks_row.id = 2, title = ''Work'', description = ''Project tasks'',
                    created_at = 9000, updated_at = 9000\<rparr>],
      tbl_task_items = [\<lparr>task_items_row.id = 1, task_id = 1, title = ''Buy milk'',
                         completed = False, created_at = 7000, updated_at = 7000\<rparr>],
      tasks_id_seq = 2, task_items_id_seq = 1, wall_clock = 10000, round_trips = 7, faults = []\<rparr>"


section \<open>Validation in the use-case\<close>

lemma CreateTask_loop_empty_title:
  "'''' \<in> set (map CreateTaskItemParams.Title itemParams) \<Longrightarrow>
   CreateTask_loop itemParams items = Inl (errors_New ''task item title is required'')"
  by (induction itemParams arbitrary: items) auto

text \<open>
  Claim C5. When the task title is empty, or the title of some item is empty, the use-case
  \<^verbatim>\<open>CreateTask\<close> fails with a validation error (\<^verbatim>\<open>task title is required\<close>, or
  \<^verbatim>\<open>task item title is required\<close>), whatever repository it was built with, and hands
  back the state it was given: the repository is not called and no row is inserted.
\<close>

theorem CreateTask_rejects_empty_titles:
  assumes "CreateTaskParams.Title params = '''' \<or>
           '''' \<in> set (map CreateTaskItemParams.Title (elems (CreateTaskParams.Items params)))"
  shows "taskUsecase_CreateTask taskRepo params s =
           (Inl (errors_New (if CreateTaskParams.Title params = '''' then ''task title is required''
                             else ''task item title is required'')), s)"
  using assms by (auto simp: taskUsecase_CreateTask_def CreateTask_loop_empty_title)

theorem CreateTask_rejects_empty_titles_witness:
  "taskUsecase_CreateTask NewTaskRepository
      \<lparr>CreateTaskParams.Title = ''Shopping'', Description = ''Weekly shopping'',
       Items = Slice [\<lparr>CreateTaskItemParams.Title = '''', Completed = False\<rparr>]\<rparr>
      (new_world 0 [])
    = (Inl (errors_New ''task item title is required''), new_world 0 [])"
  using CreateTask_rejects_empty_titles [of
      "\<lparr>CreateTaskParams.Title = ''Shopping'', Description = ''Weekly shopping'',
        Items = Slice [\<lparr>CreateTaskItemParams.Title = '''', Completed = False\<rparr>]\<rparr>"
      NewTaskRepository "new_world 0 []"]
  by simp

text \<open>
  Claim C6. For an identifier that is zero or negative, the use-cases \<^verbatim>\<open>GetTask\<close> and
  \<^verbatim>\<open>DeleteTask\<close> fail with the input error \<^verbatim>\<open>invalid task ID\<close>, whatever repository
  they were built with, and hand back the state they were given: no method of the
  repository is called.
\<close>

theorem nonpositive_id_rejected:
  assumes "taskID \<le> 0"
  shows "taskUsecase_GetTask taskRepo taskID s = (Inl (errors_New ''invalid task ID''), s) \<and>
         taskUsecase_DeleteTask taskRepo taskID s = (Some (errors_New ''invalid task ID''), s)"
  using assms by (simp add: taskUsecase_GetTask_def taskUsecase_DeleteTask_def)

theorem nonpositive_id_rejected_witness:
  "taskUsecase_GetTask NewTaskRepository 0 (new_world 0 []) =
     (Inl (errors_New ''invalid task ID''), new_world 0 []) \<and>
   taskUsecase_DeleteTask NewTaskRepository (- 5) (new_world 0 []) =
     (Some (errors_New ''invalid task ID''), new_world 0 [])"
  using nonpositive_id_rejected [of 0 NewTaskRepository "new_world 0 []"]
        nonpositive_id_rejected [of "- 5" NewTaskRepository "new_world 0 []"]
  by simp

section \<open>Validation errors of the adapter\<close>

lemma getValidationErrorMessage_spec:
  "getValidationErrorMessage fe = spec_message (Tag fe)"
  by (simp add: getValidationErrorMessage_def spec_message_def spec_tag_messages_def)

lemma toJSONFieldName_spec:
  "starts_ascii field \<Longrightarrow> toJSONFieldName field = spec_lower_first field"
  by (cases field) (auto simp: strings_ToLower1_def ascii_lower_def)

lemma find_append_case:
  "find P (xs @ ys) = (case find P xs of None \<Rightarrow> find P ys | Some x \<Rightarrow> Some x)"
  by (induction xs) auto

lemma respondWithValidationError_loop_lookup:
  "respondWithValidationError_loop ve m k =
     (case find (\<lambda>fe. toJSONFieldName (Field fe) = k) (rev ve) of
        Some fe \<Rightarrow> Some (getValidationErrorMessage fe)
      | None \<Rightarrow> m k)"
proof (induction ve arbitrary: m)
  case Nil
  then show ?case by simp
next
  case (Cons fe rest)
  show ?case
    by (simp add: Cons.IH find_append_case split: option.splits)
qed

lemma find_cong_list_all:
  "list_all (\<lambda>x. P x = Q x) xs \<Longrightarrow> find P xs = find Q xs"
  by (induction xs) auto

text \<open>
  Claim C9. For a list of validation errors whose field names start with an ASCII letter,
  the adapter answers 400 with a map from names to messages: the entry under a name is
  that of the last error whose field name, with its first letter in lower case, is that
  name, and its message is the specification's message for the error's tag
  (\<^verbatim>\<open>required\<close>, \<^verbatim>\<open>invalid email\<close>, \<^verbatim>\<open>too short\<close>, \<^verbatim>\<open>too long\<close>,
  \<^verbatim>\<open>invalid length\<close>, \<^verbatim>\<open>must be numeric\<close>, \<^verbatim>\<open>must contain only letters\<close>,
  \<^verbatim>\<open>must contain only letters and numbers\<close>, and \<^verbatim>\<open>invalid\<close> for any other tag).
  A decoded body whose task title is missing (the empty string) is answered by 400 with the
  map that holds \<^verbatim>\<open>title\<close> \<open>\<mapsto>\<close> \<^verbatim>\<open>required\<close> and nothing else, and the use-case is
  not called.
\<close>

theorem validation_error_response:
  "(list_all (\<lambda>fe. starts_ascii (Field fe)) ve \<longrightarrow>
      respondWithValidationError (validator_ValidationErrors ve) =
        \<lparr>status = 400,
         payload = JSON_validation
           (\<lambda>name. map_option (\<lambda>fe. spec_message (Tag fe))
                      (find (\<lambda>fe. spec_lower_first (Field fe) = name) (rev ve)))\<rparr>) \<and>
   (createTaskHTTPRequest.Title req = '''' \<longrightarrow>
      HTTPTaskHandler_CreateTask taskUsecase (Inr req) s =
        (\<lparr>status = 400, payload = JSON_validation [''title'' \<mapsto> ''required'']\<rparr>, s))"
proof (intro conjI impI)
  assume a: "list_all (\<lambda>fe. starts_ascii (Field fe)) ve"
  then have "list_all (\<lambda>fe. (toJSONFieldName (Field fe) = name) = (spec_lower_first (Field fe) = name)) (rev ve)" for name
    by (simp add: list_all_iff toJSONFieldName_spec)
  then have f: "find (\<lambda>fe. toJSONFieldName (Field fe) = name) (rev ve) =
                find (\<lambda>fe. spec_lower_first (Field fe) = name) (rev ve)" for name
    by (rule find_cong_list_all)
  have "respondWithValidationError_loop ve Map.empty =
          (\<lambda>name. map_option (\<lambda>fe. spec_message (Tag fe))
                      (find (\<lambda>fe. spec_lower_first (Field fe) = name) (rev ve)))"
    by (rule ext) (simp add: respondWithValidationError_loop_lookup f getValidationErrorMessage_spec
          split: option.splits)
  then show "respondWithValidationError (validator_ValidationErrors ve) =
        \<lparr>status = 400,
         payload = JSON_validation
           (\<lambda>name. map_option (\<lambda>fe. spec_message (Tag fe))
                      (find (\<lambda>fe. spec_lower_first (Field fe) = name) (rev ve)))\<rparr>"
    by (simp add: respondWithValidationError_def c_JSON_def)
next
  assume "createTaskHTTPRequest.Title req = ''''"
  then show "HTTPTaskHandler_CreateTask taskUsecase (Inr req) s =
        (\<lparr>status = 400, payload = JSON_validation [''title'' \<mapsto> ''required'']\<rparr>, s)"
    by (simp add: HTTPTaskHandler_CreateTask_def ShouldBindJSON_def
          validate_createTaskHTTPRequest_def respondWithValidationError_def c_JSON_def
          strings_ToLower1_def getValidationErrorMessage_def char_of_def bit_Suc_0_iff)
qed

theorem validation_error_response_witness:
  "respondWithValidationError
      (validator_ValidationErrors [\<lparr>Field = ''Title'', Tag = ''required''\<rparr>,
                                   \<lparr>Field = ''Email'', Tag = ''email''\<rparr>,
                                   \<lparr>Field = ''Code'', Tag = ''oneof''\<rparr>]) =
     \<lparr>status = 400,
      payload = JSON_validation
        [''title'' \<mapsto> ''required'', ''email'' \<mapsto> ''invalid email'', ''code'' \<mapsto> ''invalid'']\<rparr> \<and>
   HTTPTaskHandler_CreateTask (NewTaskUsecase NewTaskRepository)
      (Inr \<lparr>createTaskHTTPRequest.Title = '''', Description = ''No title'', Items = nil\<rparr>)
      (new_world 0 []) =
     (\<lparr>status = 400, payload = JSON_validation [''title'' \<mapsto> ''required'']\<rparr>, new_world 0 [])"
proof -
  let ?ve = "[\<lparr>Field = ''Title'', Tag = ''required''\<rparr>,
              \<lparr>Field = ''Email'', Tag = ''email''\<rparr>,
              \<lparr>Field = ''Code'', Tag = ''oneof''\<rparr>]"
  let ?req = "\<lparr>createTaskHTTPRequest.Title = '''', Description = ''No title'', Items = nil\<rparr>"
  have m: "(\<lambda>name. map_option (\<lambda>fe. spec_message (Tag fe))
                      (find (\<lambda>fe. spec_lower_first (Field fe) = name) (rev ?ve))) =
           [''title'' \<mapsto> ''required'', ''email'' \<mapsto> ''invalid email'', ''code'' \<mapsto> ''invalid'']"
    by (rule ext) (simp add: spec_message_def spec_tag_messages_def ascii_lower_def char_of_def bit_Suc_0_iff)
  note t = validation_error_response [of ?ve ?req "NewTaskUsecase NewTaskRepository" "new_world 0 []"]
  have h: "list_all (\<lambda>fe. starts_ascii (Field fe)) ?ve"
    by simp
  have r: "createTaskHTTPRequest.Title ?req = []"
    by simp
  note t1 = t [THEN conjunct1, THEN mp, OF h, unfolded m]
  note t2 = t [THEN conjunct2, THEN mp, OF r]
  show ?thesis
    using t1 t2 by (rule conjI)
qed

section \<open>The mappings between the layers\<close>

lemma modelToResult_loop_map:
  "modelToResult_loop items acc =
     (case items of [] \<Rightarrow> acc
      | item # rest \<Rightarrow>
         Slice (elems acc @ map (\<lambda>item.
           \<lparr>TaskItemResult.ID = TaskItem.ID item, TaskID = TaskItem.TaskID item,
            Title = TaskItem.Title item, Completed = TaskItem.Completed item,
            CreatedAt = TaskItem.CreatedAt item, UpdatedAt = TaskItem.UpdatedAt item\<rparr>) items))"
  by (induction items arbitrary: acc) (auto simp: append_slice_def split: list.splits)

lemma resultToResponse_loop_map:
  "resultToResponse_loop items acc =
     (case items of [] \<Rightarrow> acc
      | item # rest \<Rightarrow>
         Slice (elems acc @ map (\<lambda>item.
           \<lparr>taskItemHTTPResponse.ID = TaskItemResult.ID item,
            TaskID = TaskItemResult.TaskID item,
            Title = TaskItemResult.Title item,
            Completed = TaskItemResult.Completed item,
            CreatedAt = TaskItemResult.CreatedAt item,
            UpdatedAt = TaskItemResult.UpdatedAt item\<rparr>) items))"
  by (induction items arbitrary: acc) (auto simp: append_slice_def split: list.splits)

lemma listResultToResponse_loop_map:
  "listResultToResponse_loop results acc =
     (case results of [] \<Rightarrow> acc
      | r # rest \<Rightarrow> Slice (elems acc @ map resultToResponse results))"
  by (induction results arbitrary: acc) (auto simp: append_slice_def split: list.splits)


lemma modelToResult_eq:
  "modelToResult task =
     \<lparr>TaskResult.ID = Task.ID task, Title = Task.Title task,
      Description = Task.Description task,
      CreatedAt = Task.CreatedAt task, UpdatedAt = Task.UpdatedAt task,
      Items = Slice (map (\<lambda>item.
           \<lparr>TaskItemResult.ID = TaskItem.ID item, TaskID = TaskItem.TaskID item,
            Title = TaskItem.Title item, Completed = TaskItem.Completed item,
            CreatedAt = TaskItem.CreatedAt item, UpdatedAt = TaskItem.UpdatedAt item\<rparr>)
         (elems (Task.Items task)))\<rparr>"
  by (simp add: modelToResult_def modelToResult_loop_map make_slice_def split: list.splits)

lemma resultToResponse_eq:
  "resultToResponse result =
     \<lparr>taskHTTPResponse.ID = TaskResult.ID result,
      Title = TaskResult.Title result,
      Description = TaskResult.Description result,
      CreatedAt = TaskResult.CreatedAt result,
      UpdatedAt = TaskResult.UpdatedAt result,
      Items = Slice (map (\<lambda>item.
           \<lparr>taskItemHTTPResponse.ID = TaskItemResult.ID item,
            TaskID = TaskItemResult.TaskID item,
            Title = TaskItemResult.Title item,
            Completed = TaskItemResult.Completed item,
            CreatedAt = TaskItemResult.CreatedAt item,
            UpdatedAt = TaskItemResult.UpdatedAt item\<rparr>)
         (elems (TaskResult.Items result)))\<rparr>"
  by (simp add: resultToResponse_def resultToResponse_loop_map make_slice_def split: list.splits)

lemma listResultToResponse_eq:
  "listResultToResponse result =
     \<lparr>taskListHTTPResponse.Tasks = Slice (map resultToResponse (elems (TaskListResult.Tasks result)))\<rparr>"
  by (simp add: listResultToResponse_def listResultToResponse_loop_map make_slice_def split: list.splits)


text \<open>
  Claim C10. For every task model, also one whose \<^verbatim>\<open>Items\<close> slice is \<^verbatim>\<open>nil\<close>, and
  for every result and list result, the mappings \<^verbatim>\<open>modelToResult\<close>,
  \<^verbatim>\<open>resultToResponse\<close> and \<^verbatim>\<open>listResultToResponse\<close> copy every field and build a
  non-nil slice that holds the images of the elements in their order. So the member
  \<^verbatim>\<open>items\<close> of a serialised task response and the member \<^verbatim>\<open>tasks\<close> of a serialised
  list response are arrays, the empty array when there is nothing to list, never
  \<^verbatim>\<open>null\<close>.
\<close>

theorem mappings_build_arrays:
  "modelToResult task =
     \<lparr>TaskResult.ID = Task.ID task, Title = Task.Title task,
      Description = Task.Description task,
      CreatedAt = Task.CreatedAt task, UpdatedAt = Task.UpdatedAt task,
      Items = Slice (map (\<lambda>item.
           \<lparr>TaskItemResult.ID = TaskItem.ID item, TaskID = TaskItem.TaskID item,
            Title = TaskItem.Title item, Completed = TaskItem.Completed item,
            CreatedAt = TaskItem.CreatedAt item, UpdatedAt = TaskItem.UpdatedAt item\<rparr>)
         (elems (Task.Items task)))\<rparr> \<and>
   resultToResponse result =
     \<lparr>taskHTTPResponse.ID = TaskResult.ID result,
      Title = TaskResult.Title result,
      Description = TaskResult.Description result,
      CreatedAt = TaskResult.CreatedAt result,
      UpdatedAt = TaskResult.UpdatedAt result,
      Items = Slice (map (\<lambda>item.
           \<lparr>taskItemHTTPResponse.ID = TaskItemResult.ID item,
            TaskID = TaskItemResult.TaskID item,
            Title = TaskItemResult.Title item,
            Completed = TaskItemResult.Completed item,
            CreatedAt = TaskItemResult.CreatedAt item,
            UpdatedAt = TaskItemResult.UpdatedAt item\<rparr>)
         (elems (TaskResult.Items result)))\<rparr> \<and>
   listResultToResponse listResult =
     \<lparr>taskListHTTPResponse.Tasks =
        Slice (map resultToResponse (elems (TaskListResult.Tasks listResult)))\<rparr> \<and>
   json_member (json_taskHTTPResponse (resultToResponse (modelToResult task))) ''items'' =
     Some (JArray (map json_taskItemHTTPResponse
             (elems (taskHTTPResponse.Items (resultToResponse (modelToResult task)))))) \<and>
   json_member (json_taskHTTPResponse
       (resultToResponse (modelToResult (task\<lparr>Task.Items := nil\<rparr>)))) ''items'' =
     Some (JArray []) \<and>
   json_member (json_taskListHTTPResponse (listResultToResponse listResult)) ''tasks'' =
     Some (JArray (map json_taskHTTPResponse
             (elems (taskListHTTPResponse.Tasks (listResultToResponse listResult))))) \<and>
   json_member (json_taskListHTTPResponse
       (listResultToResponse \<lparr>TaskListResult.Tasks = nil\<rparr>)) ''tasks'' = Some (JArray [])"
  by (simp add: modelToResult_eq [symmetric] resultToResponse_eq [symmetric] listResultToResponse_eq
      json_taskHTTPResponse_def json_taskListHTTPResponse_def json_slice_def
      resultToResponse_def modelToResult_def resultToResponse_loop_map modelToResult_loop_map make_slice_def
      split: list.splits)

section \<open>A task that is not there\<close>

lemma round_trip_eq:
  "round_trip w =
     (map_option driver_error (next_fault w),
      w\<lparr>round_trips := Suc (round_trips w), faults := tl (faults w)\<rparr>)"
  by (cases "faults w") (simp_all add: round_trip_def next_fault_def)

lemma find_None_ids:
  "find (\<lambda>r. tasks_row.id r = taskID) rows = None \<longleftrightarrow> taskID \<notin> set (map tasks_row.id rows)"
  by (induction rows) auto

lemma GetByID_missing:
  assumes "taskID \<notin> set (map tasks_row.id (tbl_tasks w))"
  shows "fst (taskRepository_GetByID taskID w) =
           Inl (case next_fault w of None \<Rightarrow> sql_ErrNoRows | Some m \<Rightarrow> driver_error m)"
  using assms
  by (cases "next_fault w")
     (simp_all add: taskRepository_GetByID_def round_trip_eq find_None_ids [THEN iffD2])

text \<open>
  Claim C2, as the code has it. For an identifier that matches no row of \<^verbatim>\<open>tasks\<close>,
  \<^verbatim>\<open>GetByID\<close> fails with the error of \<^verbatim>\<open>Scan\<close> passed through unchanged: that is
  \<^verbatim>\<open>sql.ErrNoRows\<close> when the query is executed, and the driver's failure otherwise. It
  is not \<^verbatim>\<open>ErrTaskNotFound\<close>. The adapter's \<^verbatim>\<open>GetTask\<close> recognises
  \<^verbatim>\<open>sql.ErrNoRows\<close> and answers 404 with \<^verbatim>\<open>task not found\<close>.
\<close>

theorem GetByID_no_row_is_sql_ErrNoRows:
  assumes "taskID \<notin> set (map tasks_row.id (tbl_tasks w))"
  shows "fst (taskRepository_GetByID taskID w) =
           Inl (case next_fault w of None \<Rightarrow> sql_ErrNoRows | Some m \<Rightarrow> driver_error m) \<and>
         \<not> errors_Is (case next_fault w of None \<Rightarrow> sql_ErrNoRows | Some m \<Rightarrow> driver_error m)
              ErrTaskNotFound \<and>
         (next_fault w = None \<and> strconv_ParseInt idStr = Inr taskID \<and> 0 < taskID \<longrightarrow>
            fst (HTTPTaskHandler_GetTask (NewTaskUsecase NewTaskRepository) idStr w) =
              \<lparr>status = 404, payload = JSON_error \<lparr>Error = ''task not found''\<rparr>\<rparr>)"
proof (intro conjI impI)
  show g: "fst (taskRepository_GetByID taskID w) =
           Inl (case next_fault w of None \<Rightarrow> sql_ErrNoRows | Some m \<Rightarrow> driver_error m)"
    using assms by (rule GetByID_missing)
  show "\<not> errors_Is (case next_fault w of None \<Rightarrow> sql_ErrNoRows | Some m \<Rightarrow> driver_error m)
              ErrTaskNotFound"
    by (simp add: errors_Is_def split: option.splits)
  assume a: "next_fault w = None \<and> strconv_ParseInt idStr = Inr taskID \<and> 0 < taskID"
  then have "fst (taskRepository_GetByID taskID w) = Inl sql_ErrNoRows"
    using g by simp
  then show "fst (HTTPTaskHandler_GetTask (NewTaskUsecase NewTaskRepository) idStr w) =
              \<lparr>status = 404, payload = JSON_error \<lparr>Error = ''task not found''\<rparr>\<rparr>"
    using a
    by (cases "taskRepository_GetByID taskID w")
       (simp add: HTTPTaskHandler_GetTask_def NewTaskUsecase_def taskUsecase_GetTask_def
          NewTaskRepository_def errors_Is_def respondWithError_def c_JSON_def)
qed

theorem GetByID_no_row_is_sql_ErrNoRows_witness:
  "fst (taskRepository_GetByID 999 (new_world 0 [])) = Inl sql_ErrNoRows \<and>
   fst (HTTPTaskHandler_GetTask (NewTaskUsecase NewTaskRepository) ''999'' (new_world 0 [])) =
     \<lparr>status = 404, payload = JSON_error \<lparr>Error = ''task not found''\<rparr>\<rparr>"
proof -
  have h: "999 \<notin> set (map tasks_row.id (tbl_tasks (new_world 0 [])))"
    by (simp add: new_world_def)
  have n: "next_fault (new_world 0 []) = None"
    by (simp add: next_fault_def new_world_def)
  have p: "strconv_ParseInt ''999'' = Inr 999"
    by (simp add: strconv_ParseInt_def)
  note t = GetByID_no_row_is_sql_ErrNoRows [OF h, of "''999''"]
  show ?thesis
    using t n p by simp
qed

text \<open>
  Claim C2 as stated fails: on the migrated, empty database \<^verbatim>\<open>GetByID(999)\<close> returns
  \<^verbatim>\<open>sql.ErrNoRows\<close>, and \<^verbatim>\<open>errors.Is\<close> of that against \<^verbatim>\<open>ErrTaskNotFound\<close> is
  false.
\<close>

theorem GetByID_not_ErrTaskNotFound_counterexample:
  "fst (taskRepository_GetByID 999 (new_world 0 [])) = Inl sql_ErrNoRows \<and>
   \<not> errors_Is sql_ErrNoRows ErrTaskNotFound"
  by (simp add: taskRepository_GetByID_def round_trip_def new_world_def errors_Is_def)

section \<open>Deleting a task\<close>

lemma filter_length_0_ids:
  "length (filter (\<lambda>r. tasks_row.id r = taskID) rows) = 0 \<longleftrightarrow>
   taskID \<notin> set (map tasks_row.id rows)"
  by (induction rows) auto

lemma Delete_eq:
  "taskRepository_Delete taskID w =
     (case next_fault w of
        Some m \<Rightarrow> (Some (driver_error m), snd (round_trip w))
      | None \<Rightarrow>
          (if taskID \<in> set (map tasks_row.id (tbl_tasks w)) then None else Some ErrTaskNotFound,
           (snd (round_trip w))
             \<lparr>tbl_tasks := filter (\<lambda>r. tasks_row.id r \<noteq> taskID) (tbl_tasks w),
              tbl_task_items := filter (\<lambda>r. task_items_row.task_id r \<noteq> taskID) (tbl_task_items w)\<rparr>))"
  by (cases "next_fault w")
     (auto simp: taskRepository_Delete_def exec_delete_def round_trip_eq filter_length_0_ids
           simp del: length_0_conv)

text \<open>
  Claim C7, as the code has it. When \<^verbatim>\<open>Delete(id)\<close> succeeds, \<^verbatim>\<open>GetByID(id)\<close> on
  the resulting world fails with \<^verbatim>\<open>sql.ErrNoRows\<close> (or with the driver's failure when
  its query is not executed). \<^verbatim>\<open>Delete\<close> makes
  exactly one round trip; it fails with \<^verbatim>\<open>ErrTaskNotFound\<close> exactly when its statement
  is executed and affects no row of \<^verbatim>\<open>tasks\<close>; when the statement is executed the rows
  of the task and, by the cascade, of its items are gone and all other rows stay.
\<close>

theorem Delete_then_GetByID:
  "(fst (taskRepository_Delete taskID w) = None \<longrightarrow>
      fst (taskRepository_GetByID taskID (snd (taskRepository_Delete taskID w))) =
        Inl (case next_fault (snd (taskRepository_Delete taskID w)) of
               None \<Rightarrow> sql_ErrNoRows | Some m \<Rightarrow> driver_error m)) \<and>
   round_trips (snd (taskRepository_Delete taskID w)) = Suc (round_trips w) \<and>
   (fst (taskRepository_Delete taskID w) = Some ErrTaskNotFound \<longleftrightarrow>
      next_fault w = None \<and>
      length (filter (\<lambda>r. tasks_row.id r = taskID) (tbl_tasks w)) = 0) \<and>
   (next_fault w = None \<longrightarrow>
      tbl_tasks (snd (taskRepository_Delete taskID w)) =
        filter (\<lambda>r. tasks_row.id r \<noteq> taskID) (tbl_tasks w) \<and>
      tbl_task_items (snd (taskRepository_Delete taskID w)) =
        filter (\<lambda>r. task_items_row.task_id r \<noteq> taskID) (tbl_task_items w))"
proof (intro conjI impI)
  assume ok: "fst (taskRepository_Delete taskID w) = None"
  then have "taskID \<notin> set (map tasks_row.id (tbl_tasks (snd (taskRepository_Delete taskID w))))"
    by (cases "next_fault w") (auto simp: Delete_eq split: if_splits)
  then show "fst (taskRepository_GetByID taskID (snd (taskRepository_Delete taskID w))) =
        Inl (case next_fault (snd (taskRepository_Delete taskID w)) of
               None \<Rightarrow> sql_ErrNoRows | Some m \<Rightarrow> driver_error m)"
    by (rule GetByID_missing)
next
  show "round_trips (snd (taskRepository_Delete taskID w)) = Suc (round_trips w)"
    by (cases "next_fault w") (simp_all add: Delete_eq round_trip_eq)
next
  show "(fst (taskRepository_Delete taskID w) = Some ErrTaskNotFound) =
        (next_fault w = None \<and>
         length (filter (\<lambda>r. tasks_row.id r = taskID) (tbl_tasks w)) = 0)"
    by (cases "next_fault w") (simp_all add: Delete_eq filter_length_0_ids del: length_0_conv)
next
  assume "next_fault w = None"
  then show "tbl_tasks (snd (taskRepository_Delete taskID w)) =
        filter (\<lambda>r. tasks_row.id r \<noteq> taskID) (tbl_tasks w)"
    by (simp add: Delete_eq)
next
  assume "next_fault w = None"
  then show "tbl_task_items (snd (taskRepository_Delete taskID w)) =
        filter (\<lambda>r. task_items_row.task_id r \<noteq> taskID) (tbl_task_items w)"
    by (simp add: Delete_eq)
qed

theorem Delete_then_GetByID_witness:
  "fst (taskRepository_Delete 1 one_task_world) = None \<and>
   fst (taskRepository_GetByID 1 (snd (taskRepository_Delete 1 one_task_world))) = Inl sql_ErrNoRows \<and>
   tbl_task_items (snd (taskRepository_Delete 1 one_task_world)) = [] \<and>
   fst (taskRepository_Delete 2 one_task_world) = Some ErrTaskNotFound"
proof -
  have d: "fst (taskRepository_Delete 1 one_task_world) = None"
    by (simp add: taskRepository_Delete_def exec_delete_def round_trip_def one_task_world_def)
  have n: "next_fault one_task_world = None"
    by (simp add: next_fault_def one_task_world_def)
  have n': "next_fault (snd (taskRepository_Delete 1 one_task_world)) = None"
    by (simp add: taskRepository_Delete_def exec_delete_def round_trip_def one_task_world_def
         next_fault_def)
  have z: "length (filter (\<lambda>r. tasks_row.id r = 2) (tbl_tasks one_task_world)) = 0"
    by (simp add: one_task_world_def)
  have i: "filter (\<lambda>r. task_items_row.task_id r \<noteq> 1) (tbl_task_items one_task_world) = []"
    by (simp add: one_task_world_def)
  show ?thesis
    using Delete_then_GetByID [of 1 one_task_world] Delete_then_GetByID [of 2 one_task_world]
      d n n' z i
    by simp
qed

text \<open>
  Claim C7 as stated fails: in a world with task 1, \<^verbatim>\<open>Delete(1)\<close> succeeds and
  \<^verbatim>\<open>GetByID(1)\<close> then returns \<^verbatim>\<open>sql.ErrNoRows\<close>, which is not
  \<^verbatim>\<open>ErrTaskNotFound\<close>.
\<close>

theorem Delete_then_GetByID_counterexample:
  "fst (taskRepository_Delete 1 one_task_world) = None \<and>
   fst (taskRepository_GetByID 1 (snd (taskRepository_Delete 1 one_task_world))) = Inl sql_ErrNoRows \<and>
   \<not> errors_Is sql_ErrNoRows ErrTaskNotFound"
  by (simp add: taskRepository_Delete_def exec_delete_def taskRepository_GetByID_def
       round_trip_def one_task_world_def errors_Is_def)

section \<open>Status codes for failures of the use-case\<close>

lemma requestToParams_loop_map:
  "requestToParams_loop items acc =
     (case items of [] \<Rightarrow> acc
      | item # rest \<Rightarrow>
         Slice (elems acc @ map (\<lambda>itemReq.
           \<lparr>CreateTaskItemParams.Title = createTaskItemHTTPRequest.Title itemReq,
            Completed = createTaskItemHTTPRequest.Completed itemReq\<rparr>) items))"
  by (induction items arbitrary: acc) (auto simp: append_slice_def split: list.splits)

lemma requestToParams_eq:
  "requestToParams req =
     \<lparr>CreateTaskParams.Title = createTaskHTTPRequest.Title req,
      Description = createTaskHTTPRequest.Description req,
      Items = Slice (map (\<lambda>itemReq.
           \<lparr>CreateTaskItemParams.Title = createTaskItemHTTPRequest.Title itemReq,
            Completed = createTaskItemHTTPRequest.Completed itemReq\<rparr>)
         (elems (createTaskHTTPRequest.Items req)))\<rparr>"
  by (simp add: requestToParams_def requestToParams_loop_map make_slice_def split: list.splits)

lemma ShouldBindJSON_Inr:
  "ShouldBindJSON (Inr req) =
     (if createTaskHTTPRequest.Title req = ''''
      then Inl (validator_ValidationErrors [\<lparr>Field = ''Title'', Tag = ''required''\<rparr>])
      else Inr req)"
  by (simp add: ShouldBindJSON_def validate_createTaskHTTPRequest_def)

lemma status_respondWithValidationError:
  "status (respondWithValidationError err) = 400"
  by (cases err) (simp_all add: respondWithValidationError_def c_JSON_def)

text \<open>
  Claim C3, as the code has it. A failure of the use-case is answered with status 500 and
  the use-case's message in the generic envelope: a path identifier that parses to zero or
  to a negative number gets 500 with \<^verbatim>\<open>invalid task ID\<close> from \<^verbatim>\<open>GetTask\<close> and from
  \<^verbatim>\<open>DeleteTask\<close>, and the state is untouched; once the body is bound, any error that
  the use-case returns to \<^verbatim>\<open>CreateTask\<close> gets 500 with its message. Status 400 comes
  from the adapter's own checks only: the binding of the body for \<^verbatim>\<open>CreateTask\<close>, and
  the parsing of the path identifier for \<^verbatim>\<open>GetTask\<close> and \<^verbatim>\<open>DeleteTask\<close>.
\<close>

theorem usecase_validation_failure_answered_500:
  "(ShouldBindJSON decoded = Inr req \<and>
    CreateTask taskUsecase (requestToParams req) s = (Inl err, s1) \<longrightarrow>
      HTTPTaskHandler_CreateTask taskUsecase decoded s =
        (\<lparr>status = 500, payload = JSON_error \<lparr>Error = Error_msg err\<rparr>\<rparr>, s1)) \<and>
   (strconv_ParseInt idStr = Inr taskID \<and> taskID \<le> 0 \<longrightarrow>
      HTTPTaskHandler_GetTask (NewTaskUsecase taskRepo) idStr s =
        (\<lparr>status = 500, payload = JSON_error \<lparr>Error = ''invalid task ID''\<rparr>\<rparr>, s) \<and>
      HTTPTaskHandler_DeleteTask (NewTaskUsecase taskRepo) idStr s =
        (\<lparr>status = 500, payload = JSON_error \<lparr>Error = ''invalid task ID''\<rparr>\<rparr>, s)) \<and>
   (status (fst (HTTPTaskHandler_CreateTask taskUsecase decoded s)) = 400 \<longleftrightarrow>
      (\<exists>e. ShouldBindJSON decoded = Inl e)) \<and>
   (status (fst (HTTPTaskHandler_GetTask taskUsecase idStr s)) = 400 \<longleftrightarrow>
      (\<exists>e. strconv_ParseInt idStr = Inl e)) \<and>
   (status (fst (HTTPTaskHandler_DeleteTask taskUsecase idStr s)) = 400 \<longleftrightarrow>
      (\<exists>e. strconv_ParseInt idStr = Inl e))"
proof (intro conjI impI)
  assume "ShouldBindJSON decoded = Inr req \<and>
    CreateTask taskUsecase (requestToParams req) s = (Inl err, s1)"
  then show "HTTPTaskHandler_CreateTask taskUsecase decoded s =
        (\<lparr>status = 500, payload = JSON_error \<lparr>Error = Error_msg err\<rparr>\<rparr>, s1)"
    by (simp add: HTTPTaskHandler_CreateTask_def respondWithError_def c_JSON_def)
next
  assume "strconv_ParseInt idStr = Inr taskID \<and> taskID \<le> 0"
  then show "HTTPTaskHandler_GetTask (NewTaskUsecase taskRepo) idStr s =
        (\<lparr>status = 500, payload = JSON_error \<lparr>Error = ''invalid task ID''\<rparr>\<rparr>, s)"
    by (simp add: HTTPTaskHandler_GetTask_def NewTaskUsecase_def taskUsecase_GetTask_def
         errors_Is_def respondWithError_def c_JSON_def)
next
  assume "strconv_ParseInt idStr = Inr taskID \<and> taskID \<le> 0"
  then show "HTTPTaskHandler_DeleteTask (NewTaskUsecase taskRepo) idStr s =
        (\<lparr>status = 500, payload = JSON_error \<lparr>Error = ''invalid task ID''\<rparr>\<rparr>, s)"
    by (simp add: HTTPTaskHandler_DeleteTask_def NewTaskUsecase_def taskUsecase_DeleteTask_def
         errors_Is_def respondWithError_def c_JSON_def)
next
  show "(status (fst (HTTPTaskHandler_CreateTask taskUsecase decoded s)) = 400) =
        (\<exists>e. ShouldBindJSON decoded = Inl e)"
    by (cases "ShouldBindJSON decoded")
       (auto simp: HTTPTaskHandler_CreateTask_def status_respondWithValidationError
          respondWithError_def c_JSON_def Let_def split: prod.splits sum.splits)
next
  show "(status (fst (HTTPTaskHandler_GetTask taskUsecase idStr s)) = 400) =
        (\<exists>e. strconv_ParseInt idStr = Inl e)"
    by (cases "strconv_ParseInt idStr")
       (auto simp: HTTPTaskHandler_GetTask_def respondWithError_def c_JSON_def
          split: prod.splits sum.splits)
next
  show "(status (fst (HTTPTaskHandler_DeleteTask taskUsecase idStr s)) = 400) =
        (\<exists>e. strconv_ParseInt idStr = Inl e)"
    by (cases "strconv_ParseInt idStr")
       (auto simp: HTTPTaskHandler_DeleteTask_def respondWithError_def c_JSON_def
          split: prod.splits option.splits)
qed

text \<open>
  Claim C3 as stated fails: \<^verbatim>\<open>GET /api/tasks/0\<close> and \<^verbatim>\<open>DELETE /api/tasks/0\<close> are
  each answered with 500, not 400.
\<close>

theorem usecase_validation_failure_counterexample:
  "status (fst (HTTPTaskHandler_GetTask (NewTaskUsecase NewTaskRepository) ''0'' (new_world 0 []))) = 500 \<and>
   status (fst (HTTPTaskHandler_DeleteTask (NewTaskUsecase NewTaskRepository) ''0'' (new_world 0 []))) = 500"
  by (simp add: HTTPTaskHandler_GetTask_def HTTPTaskHandler_DeleteTask_def
       NewTaskUsecase_def strconv_ParseInt_def
       taskUsecase_GetTask_def taskUsecase_DeleteTask_def
       errors_Is_def respondWithError_def c_JSON_def)

theorem usecase_validation_failure_answered_500_witness:
  "HTTPTaskHandler_GetTask (NewTaskUsecase NewTaskRepository) ''0'' (new_world 0 []) =
     (\<lparr>status = 500, payload = JSON_error \<lparr>Error = ''invalid task ID''\<rparr>\<rparr>, new_world 0 []) \<and>
   HTTPTaskHandler_DeleteTask (NewTaskUsecase NewTaskRepository) ''-3'' (new_world 0 []) =
     (\<lparr>status = 500, payload = JSON_error \<lparr>Error = ''invalid task ID''\<rparr>\<rparr>, new_world 0 []) \<and>
   HTTPTaskHandler_CreateTask (NewTaskUsecase NewTaskRepository)
      (Inr \<lparr>createTaskHTTPRequest.Title = ''Work'', Description = ''Project tasks'',
            Items = Slice []\<rparr>)
      (new_world 0 [Some ''connection lost'']) =
     (\<lparr>status = 500, payload = JSON_error \<lparr>Error = ''connection lost''\<rparr>\<rparr>,
      (new_world 0 [])\<lparr>round_trips := 1\<rparr>) \<and>
   status (fst (HTTPTaskHandler_GetTask (NewTaskUsecase NewTaskRepository) ''invalid'' (new_world 0 []))) = 400"
proof -
  let ?req = "\<lparr>createTaskHTTPRequest.Title = ''Work'', Description = ''Project tasks'',
            Items = Slice []\<rparr>"
  let ?uc = "NewTaskUsecase NewTaskRepository :: world TaskUsecase"
  let ?sf = "new_world 0 [Some ''connection lost'']"
  let ?s1 = "(new_world 0 [])\<lparr>round_trips := 1\<rparr>"
  have p0: "strconv_ParseInt ''0'' = Inr 0" and p3: "strconv_ParseInt ''-3'' = Inr (- 3)"
    and pi: "strconv_ParseInt ''invalid'' = Inl (strconv_NumError ''invalid'')"
    by (simp_all add: strconv_ParseInt_def)
  have bound: "ShouldBindJSON (Inr ?req) = Inr ?req"
    by (simp add: ShouldBindJSON_Inr)
  have u: "CreateTask ?uc (requestToParams ?req) ?sf =
             (Inl (driver_error ''connection lost''), ?s1)"
    by (simp add: NewTaskUsecase_def taskUsecase_CreateTask_def NewTaskRepository_def
         requestToParams_def make_slice_def len_def taskRepository_Create_def RunInTx_def
         round_trip_def new_world_def)
  note a = usecase_validation_failure_answered_500
             [of "Inr ?req" ?req ?uc ?sf "driver_error ''connection lost''" ?s1
                 "''0''" 0 NewTaskRepository]
  note a1 = a [THEN conjunct1, THEN mp, OF conjI [OF bound u]]
  note b = usecase_validation_failure_answered_500
             [of "Inr ?req" ?req ?uc "new_world 0 []" "driver_error ''connection lost''" ?s1
                 "''0''" 0 NewTaskRepository]
  note b2 = b [THEN conjunct2, THEN conjunct1, THEN mp, OF conjI [OF p0], simplified]
  note c = usecase_validation_failure_answered_500
             [of "Inr ?req" ?req ?uc "new_world 0 []" "driver_error ''connection lost''" ?s1
                 "''-3''" "- 3" NewTaskRepository]
  note c2 = c [THEN conjunct2, THEN conjunct1, THEN mp, OF conjI [OF p3], simplified]
  note d = usecase_validation_failure_answered_500
             [of "Inr ?req" ?req ?uc "new_world 0 []" "driver_error ''connection lost''" ?s1
                 "''invalid''" 0 NewTaskRepository]
  note d4 = d [THEN conjunct2, THEN conjunct2, THEN conjunct2, THEN conjunct1]
  show ?thesis
    using a1 b2 c2 d4 pi by simp
qed

section \<open>Creating a task\<close>

lemma round_trip_fields [simp]:
  "tbl_tasks (snd (round_trip w)) = tbl_tasks w"
  "tbl_task_items (snd (round_trip w)) = tbl_task_items w"
  "tasks_id_seq (snd (round_trip w)) = tasks_id_seq w"
  "task_items_id_seq (snd (round_trip w)) = task_items_id_seq w"
  "wall_clock (snd (round_trip w)) = wall_clock w"
  "round_trips (snd (round_trip w)) = Suc (round_trips w)"
  by (simp_all add: round_trip_eq)

lemma round_trip_cases:
  obtains (executed)
      "round_trip w = (None, w\<lparr>round_trips := Suc (round_trips w), faults := tl (faults w)\<rparr>)"
    | (failed) m where
      "round_trip w =
         (Some (driver_error m), w\<lparr>round_trips := Suc (round_trips w), faults := tl (faults w)\<rparr>)"
  by (cases "next_fault w") (auto simp: round_trip_eq)

lemma insert_tasks_row_Inr:
  assumes "insert_tasks_row task w = (Inr task1, w1)"
  shows "\<exists>i. i \<noteq> 0 \<and> task1 = task\<lparr>Task.ID := i\<rparr>"
    and "tbl_tasks w1 = tbl_tasks w @ [tasks_row_of task1]"
    and "tbl_task_items w1 = tbl_task_items w"
    and "round_trips w1 = round_trips w"
    and "wall_clock w1 = wall_clock w"
proof -
  show "\<exists>i. i \<noteq> 0 \<and> task1 = task\<lparr>Task.ID := i\<rparr>"
  proof (cases "Task.ID task = 0")
    case True
    with assms have "task1 = task\<lparr>Task.ID := int (tasks_id_seq w) + 1\<rparr>"
      by (auto simp: insert_tasks_row_def nextval_tasks_def split: if_splits)
    moreover have "int (tasks_id_seq w) + 1 \<noteq> 0" by simp
    ultimately show ?thesis by blast
  next
    case False
    with assms have "task1 = task\<lparr>Task.ID := Task.ID task\<rparr>"
      by (auto simp: insert_tasks_row_def split: if_splits)
    with False show ?thesis by blast
  qed
  show "tbl_tasks w1 = tbl_tasks w @ [tasks_row_of task1]"
    "tbl_task_items w1 = tbl_task_items w" "round_trips w1 = round_trips w"
    "wall_clock w1 = wall_clock w"
    using assms
    by (auto simp: insert_tasks_row_def nextval_tasks_def tasks_row_of_def split: if_splits)
qed

lemma insert_task_items_row_Inr:
  assumes "insert_task_items_row item w = (Inr item1, w1)"
  shows "\<exists>i. i \<noteq> 0 \<and> item1 = item\<lparr>TaskItem.ID := i\<rparr>"
    and "tbl_task_items w1 = tbl_task_items w @ [task_items_row_of item1]"
    and "tbl_tasks w1 = tbl_tasks w"
    and "round_trips w1 = round_trips w"
    and "wall_clock w1 = wall_clock w"
proof -
  show "\<exists>i. i \<noteq> 0 \<and> item1 = item\<lparr>TaskItem.ID := i\<rparr>"
  proof (cases "TaskItem.ID item = 0")
    case True
    with assms have "item1 = item\<lparr>TaskItem.ID := int (task_items_id_seq w) + 1\<rparr>"
      by (auto simp: insert_task_items_row_def nextval_task_items_def split: if_splits)
    moreover have "int (task_items_id_seq w) + 1 \<noteq> 0" by simp
    ultimately show ?thesis by blast
  next
    case False
    with assms have "item1 = item\<lparr>TaskItem.ID := TaskItem.ID item\<rparr>"
      by (auto simp: insert_task_items_row_def split: if_splits)
    with False show ?thesis by blast
  qed
  show "tbl_task_items w1 = tbl_task_items w @ [task_items_row_of item1]"
    "tbl_tasks w1 = tbl_tasks w" "round_trips w1 = round_trips w" "wall_clock w1 = wall_clock w"
    using assms
    by (auto simp: insert_task_items_row_def nextval_task_items_def task_items_row_of_def
        split: if_splits)
qed

lemma insert_task_items_rows_Inr:
  assumes "insert_task_items_rows items w = (Inr items1, w1)"
  shows "list_all2 (\<lambda>item item1. \<exists>i. i \<noteq> 0 \<and> item1 = item\<lparr>TaskItem.ID := i\<rparr>) items items1 \<and>
         tbl_task_items w1 = tbl_task_items w @ map task_items_row_of items1 \<and>
         tbl_tasks w1 = tbl_tasks w \<and> round_trips w1 = round_trips w \<and>
         wall_clock w1 = wall_clock w"
  using assms
proof (induction items arbitrary: w items1)
  case Nil
  then show ?case by simp
next
  case (Cons item rest)
  from Cons.prems obtain item1 wa rest1 where
    a: "insert_task_items_row item w = (Inr item1, wa)" and
    b: "insert_task_items_rows rest wa = (Inr rest1, w1)" and
    c: "items1 = item1 # rest1"
    by (auto split: prod.splits sum.splits)
  note r = insert_task_items_row_Inr [OF a]
  note i = Cons.IH [OF b]
  have 1: "list_all2 (\<lambda>item item1. \<exists>i. i \<noteq> 0 \<and> item1 = item\<lparr>TaskItem.ID := i\<rparr>)
             (item # rest) (item1 # rest1)"
    using r(1) i by (intro list_all2_Cons [THEN iffD2] conjI) blast+
  have 2: "tbl_task_items w1 = tbl_task_items w @ map task_items_row_of (item1 # rest1)"
    using r(2) i by simp
  have 3: "tbl_tasks w1 = tbl_tasks w" using r(3) i by simp
  have 4: "round_trips w1 = round_trips w" using r(4) i by simp
  have 5: "wall_clock w1 = wall_clock w" using r(5) i by simp
  show ?case unfolding c using 1 2 3 4 5 by blast
qed

lemma insert_items_Inr:
  assumes "insert_items items w = (Inr items1, w1)"
  shows "list_all2 (\<lambda>item item1. \<exists>i. i \<noteq> 0 \<and> item1 = item\<lparr>TaskItem.ID := i\<rparr>)
           (elems items) (elems items1) \<and>
         tbl_task_items w1 = tbl_task_items w @ map task_items_row_of (elems items1) \<and>
         tbl_tasks w1 = tbl_tasks w \<and> round_trips w1 = Suc (round_trips w) \<and>
         wall_clock w1 = wall_clock w"
proof (cases w rule: round_trip_cases)
  case executed
  let ?wa = "w\<lparr>round_trips := Suc (round_trips w), faults := tl (faults w)\<rparr>"
  from assms executed obtain rows1 where
    a: "insert_task_items_rows (elems items) ?wa = (Inr rows1, w1)" and b: "items1 = Slice rows1"
    by (auto simp: insert_items_def split: prod.splits sum.splits)
  note r = insert_task_items_rows_Inr [OF a]
  have 1: "list_all2 (\<lambda>item item1. \<exists>i. i \<noteq> 0 \<and> item1 = item\<lparr>TaskItem.ID := i\<rparr>)
           (elems items) (elems items1)"
    unfolding b using r by simp
  have 2: "tbl_task_items w1 = tbl_task_items w @ map task_items_row_of (elems items1)"
    unfolding b using r by simp
  have 3: "tbl_tasks w1 = tbl_tasks w" using r by simp
  have 4: "round_trips w1 = Suc (round_trips w)" using r by simp
  have 5: "wall_clock w1 = wall_clock w" using r by simp
  show ?thesis using 1 2 3 4 5 by blast
next
  case (failed m)
  with assms show ?thesis by (simp add: insert_items_def)
qed

lemma insert_task_Inr:
  assumes "insert_task task w = (Inr task1, w1)"
  shows "\<exists>i. i \<noteq> 0 \<and> task1 = task\<lparr>Task.ID := i\<rparr>"
    and "tbl_tasks w1 = tbl_tasks w @ [tasks_row_of task1]"
    and "tbl_task_items w1 = tbl_task_items w"
    and "round_trips w1 = Suc (round_trips w)"
    and "wall_clock w1 = wall_clock w"
proof -
  from assms have a: "insert_tasks_row task (snd (round_trip w)) = (Inr task1, w1)"
    by (cases w rule: round_trip_cases) (simp_all add: insert_task_def)
  note r = insert_tasks_row_Inr [OF a]
  show "\<exists>i. i \<noteq> 0 \<and> task1 = task\<lparr>Task.ID := i\<rparr>" by (rule r(1))
  show "tbl_tasks w1 = tbl_tasks w @ [tasks_row_of task1]" using r(2) by simp
  show "tbl_task_items w1 = tbl_task_items w" using r(3) by simp
  show "round_trips w1 = Suc (round_trips w)" using r(4) by simp
  show "wall_clock w1 = wall_clock w" using r(5) by simp
qed

lemma Create_fn_None:
  assumes "Create_fn task tx = ((None, task'), tx')"
  shows "Task.CreatedAt task' = wall_clock tx \<and> Task.UpdatedAt task' = wall_clock tx \<and>
         Task.ID task' \<noteq> 0 \<and>
         Task.Title task' = Task.Title task \<and> Task.Description task' = Task.Description task"
    and "list_all2 (\<lambda>item item'. TaskItem.ID item' \<noteq> 0 \<and>
             item' = item\<lparr>TaskItem.ID := TaskItem.ID item', TaskItem.TaskID := Task.ID task',
                           TaskItem.CreatedAt := wall_clock tx,
                           TaskItem.UpdatedAt := wall_clock tx\<rparr>)
           (elems (Task.Items task)) (elems (Task.Items task'))"
    and "tbl_tasks tx' = tbl_tasks tx @ [tasks_row_of task']"
    and "tbl_task_items tx' = tbl_task_items tx @ map task_items_row_of (elems (Task.Items task'))"
    and "round_trips tx' = round_trips tx + (if elems (Task.Items task) = [] then 1 else 2)"
proof -
  let ?now = "wall_clock tx"
  let ?task = "task\<lparr>Task.CreatedAt := ?now, Task.UpdatedAt := ?now\<rparr>"
  from assms obtain task1 tx1 where
    ins: "insert_task ?task tx = (Inr task1, tx1)"
    by (auto simp: Create_fn_def Let_def split: prod.splits sum.splits if_splits)
  note t = insert_task_Inr [OF ins]
  from t(1) obtain i where i: "i \<noteq> 0" "task1 = ?task\<lparr>Task.ID := i\<rparr>"
    by blast
  let ?f = "\<lambda>item. item\<lparr>TaskItem.TaskID := Task.ID task1, TaskItem.CreatedAt := ?now,
                          TaskItem.UpdatedAt := ?now\<rparr>"
  let ?task2 = "task1\<lparr>Task.Items := Slice (map ?f (elems (Task.Items task1)))\<rparr>"
  show "Task.CreatedAt task' = wall_clock tx \<and> Task.UpdatedAt task' = wall_clock tx \<and>
         Task.ID task' \<noteq> 0 \<and>
         Task.Title task' = Task.Title task \<and> Task.Description task' = Task.Description task"
    using assms ins i
    by (auto simp: Create_fn_def Let_def split: prod.splits sum.splits if_splits)
  have id: "Task.ID task' = Task.ID task1"
    using assms ins
    by (auto simp: Create_fn_def Let_def split: prod.splits sum.splits if_splits)
  have items1: "Task.Items task1 = Task.Items task"
    using i by simp
  show "list_all2 (\<lambda>item item'. TaskItem.ID item' \<noteq> 0 \<and>
             item' = item\<lparr>TaskItem.ID := TaskItem.ID item', TaskItem.TaskID := Task.ID task',
                           TaskItem.CreatedAt := wall_clock tx,
                           TaskItem.UpdatedAt := wall_clock tx\<rparr>)
           (elems (Task.Items task)) (elems (Task.Items task'))"
  proof (cases "0 < len (Task.Items task1)")
    case False
    then have "elems (Task.Items task) = []"
      using items1 by (simp add: len_def)
    moreover from assms ins False have "task' = task1"
      by (simp add: Create_fn_def Let_def)
    ultimately show ?thesis
      using items1 by simp
  next
    case True
    with assms ins obtain items where
      b: "insert_items (Slice (map ?f (elems (Task.Items task1)))) tx1 = (Inr items, tx')" and
      c: "task' = ?task2\<lparr>Task.Items := items\<rparr>"
      by (auto simp: Create_fn_def Let_def split: prod.splits sum.splits)
    have "list_all2 (\<lambda>item item1. \<exists>i. i \<noteq> 0 \<and> item1 = item\<lparr>TaskItem.ID := i\<rparr>)
            (map ?f (elems (Task.Items task1))) (elems items)"
      using insert_items_Inr [OF b] by simp
    then have "list_all2 (\<lambda>item item1. \<exists>i. i \<noteq> 0 \<and> item1 = (?f item)\<lparr>TaskItem.ID := i\<rparr>)
            (elems (Task.Items task1)) (elems items)"
      by (simp add: list_all2_map1)
    then have "list_all2 (\<lambda>item item'. TaskItem.ID item' \<noteq> 0 \<and>
             item' = item\<lparr>TaskItem.ID := TaskItem.ID item', TaskItem.TaskID := Task.ID task1,
                           TaskItem.CreatedAt := wall_clock tx,
                           TaskItem.UpdatedAt := wall_clock tx\<rparr>)
            (elems (Task.Items task1)) (elems items)"
      by (rule list_all2_mono) auto
    then show ?thesis
      unfolding id items1 [symmetric] by (simp add: c)
  qed
  show "tbl_tasks tx' = tbl_tasks tx @ [tasks_row_of task']"
  proof (cases "0 < len (Task.Items task1)")
    case False
    with assms ins have "task' = task1" "tx' = tx1"
      by (simp_all add: Create_fn_def Let_def)
    then show ?thesis using t(2) by simp
  next
    case True
    with assms ins obtain items where
      b: "insert_items (Slice (map ?f (elems (Task.Items task1)))) tx1 = (Inr items, tx')" and
      c: "task' = ?task2\<lparr>Task.Items := items\<rparr>"
      by (auto simp: Create_fn_def Let_def split: prod.splits sum.splits)
    have "tbl_tasks tx' = tbl_tasks tx1"
      using insert_items_Inr [OF b] by simp
    then show ?thesis
      using t(2) by (simp add: c tasks_row_of_def)
  qed
  show "tbl_task_items tx' = tbl_task_items tx @ map task_items_row_of (elems (Task.Items task'))"
  proof (cases "0 < len (Task.Items task1)")
    case False
    with assms ins have "task' = task1" "tx' = tx1"
      by (simp_all add: Create_fn_def Let_def)
    moreover from False have "elems (Task.Items task1) = []"
      by (simp add: len_def)
    ultimately show ?thesis using t(3) by simp
  next
    case True
    with assms ins obtain items where
      b: "insert_items (Slice (map ?f (elems (Task.Items task1)))) tx1 = (Inr items, tx')" and
      c: "task' = ?task2\<lparr>Task.Items := items\<rparr>"
      by (auto simp: Create_fn_def Let_def split: prod.splits sum.splits)
    have "tbl_task_items tx' = tbl_task_items tx1 @ map task_items_row_of (elems items)"
      using insert_items_Inr [OF b] by simp
    then show ?thesis
      using t(3) by (simp add: c)
  qed
  show "round_trips tx' = round_trips tx + (if elems (Task.Items task) = [] then 1 else 2)"
  proof (cases "0 < len (Task.Items task1)")
    case False
    with assms ins have "tx' = tx1"
      by (simp_all add: Create_fn_def Let_def)
    moreover from False have "elems (Task.Items task) = []"
      using items1 by (simp add: len_def)
    ultimately show ?thesis using t(4) by simp
  next
    case True
    with assms ins obtain items where
      b: "insert_items (Slice (map ?f (elems (Task.Items task1)))) tx1 = (Inr items, tx')"
      by (auto simp: Create_fn_def Let_def split: prod.splits sum.splits)
    have "round_trips tx' = Suc (round_trips tx1)"
      using insert_items_Inr [OF b] by simp
    moreover from True have "elems (Task.Items task) \<noteq> []"
      using items1 by (simp add: len_def)
    ultimately show ?thesis
      using t(4) by simp
  qed
qed

lemma RunInTx_None:
  assumes "RunInTx x fn w = ((None, x'), w')"
  obtains w2 where
    "fn x (w\<lparr>round_trips := Suc (round_trips w), faults := tl (faults w)\<rparr>) = ((None, x'), w2)"
    "w' = w2\<lparr>round_trips := Suc (round_trips w2), faults := tl (faults w2)\<rparr>"
proof (cases w rule: round_trip_cases)
  case executed
  let ?w1 = "w\<lparr>round_trips := Suc (round_trips w), faults := tl (faults w)\<rparr>"
  from assms executed obtain w2 where f: "fn x ?w1 = ((None, x'), w2)"
    by (auto simp: RunInTx_def split: prod.splits option.splits)
  from assms executed f have "w' = w2\<lparr>round_trips := Suc (round_trips w2), faults := tl (faults w2)\<rparr>"
    by (cases w2 rule: round_trip_cases) (simp_all add: RunInTx_def)
  with f show ?thesis by (rule that)
next
  case (failed m)
  with assms show ?thesis by (simp add: RunInTx_def)
qed

lemma RunInTx_Some:
  assumes "RunInTx x fn w = ((Some err, x'), w')"
  shows "tbl_tasks w' = tbl_tasks w \<and> tbl_task_items w' = tbl_task_items w"
proof (cases w rule: round_trip_cases)
  case executed
  let ?w1 = "w\<lparr>round_trips := Suc (round_trips w), faults := tl (faults w)\<rparr>"
  obtain e x1 w2 where f: "fn x ?w1 = ((e, x1), w2)"
    by (metis surj_pair)
  show ?thesis
  proof (cases e)
    case None
    with assms executed f show ?thesis
      by (cases w2 rule: round_trip_cases) (auto simp: RunInTx_def)
  next
    case (Some e1)
    with assms executed f show ?thesis
      by (auto simp: RunInTx_def rollback_def)
  qed
next
  case (failed m)
  with assms show ?thesis by (auto simp: RunInTx_def)
qed

lemma list_all2_rightD:
  "list_all2 P xs ys \<Longrightarrow> y \<in> set ys \<Longrightarrow> \<exists>x. P x y"
  by (auto simp: list_all2_conv_all_nth in_set_conv_nth)

text \<open>
  Claim C1. \<^verbatim>\<open>Create\<close> runs in one transaction. When it succeeds, the task it leaves
  has the one reading \<^verbatim>\<open>now\<close> of the clock as \<^verbatim>\<open>CreatedAt\<close> and as
  \<^verbatim>\<open>UpdatedAt\<close>, a non-zero \<^verbatim>\<open>ID\<close>, and its title and description; its items are
  the given items, in order, each with a non-zero \<^verbatim>\<open>ID\<close>, with \<^verbatim>\<open>TaskID\<close> equal to
  the task's \<^verbatim>\<open>ID\<close>, and with that same \<^verbatim>\<open>now\<close> as both timestamps; the tables hold
  one more task row and, after it, one row for each item, in order, with those identifiers
  and with \<^verbatim>\<open>now\<close> cut to microseconds in both timestamp columns; and the database has
  been contacted three times for a task without items (begin, insert of the task, commit)
  and four times otherwise (the items go in one statement). When it fails, the tables are
  as before.
\<close>

theorem Create_is_one_transaction:
  "(taskRepository_Create task w = ((None, task'), w') \<longrightarrow>
      Task.CreatedAt task' = wall_clock w \<and> Task.UpdatedAt task' = wall_clock w \<and>
      Task.ID task' \<noteq> 0 \<and>
      Task.Title task' = Task.Title task \<and> Task.Description task' = Task.Description task \<and>
      list_all2 (\<lambda>item item'. TaskItem.ID item' \<noteq> 0 \<and>
             item' = item\<lparr>TaskItem.ID := TaskItem.ID item', TaskItem.TaskID := Task.ID task',
                           TaskItem.CreatedAt := wall_clock w,
                           TaskItem.UpdatedAt := wall_clock w\<rparr>)
        (elems (Task.Items task)) (elems (Task.Items task')) \<and>
      tbl_tasks w' = tbl_tasks w @
        [\<lparr>tasks_row.id = Task.ID task', title = Task.Title task,
          description = Task.Description task,
          created_at = pg_timestamp (wall_clock w),
          updated_at = pg_timestamp (wall_clock w)\<rparr>] \<and>
      tbl_task_items w' = tbl_task_items w @
        map (\<lambda>item'. \<lparr>task_items_row.id = TaskItem.ID item', task_id = Task.ID task',
                        title = TaskItem.Title item', completed = TaskItem.Completed item',
                        created_at = pg_timestamp (wall_clock w),
                        updated_at = pg_timestamp (wall_clock w)\<rparr>)
            (elems (Task.Items task')) \<and>
      round_trips w' = round_trips w + (if elems (Task.Items task) = [] then 3 else 4)) \<and>
   (taskRepository_Create task w = ((Some err, task'), w') \<longrightarrow>
      tbl_tasks w' = tbl_tasks w \<and> tbl_task_items w' = tbl_task_items w)"
proof (intro conjI impI)
  assume "taskRepository_Create task w = ((Some err, task'), w')"
  then have r: "tbl_tasks w' = tbl_tasks w \<and> tbl_task_items w' = tbl_task_items w"
    unfolding taskRepository_Create_def by (rule RunInTx_Some)
  from r show "tbl_tasks w' = tbl_tasks w" by simp
  from r show "tbl_task_items w' = tbl_task_items w" by simp
next
  let ?w1 = "w\<lparr>round_trips := Suc (round_trips w), faults := tl (faults w)\<rparr>"
  assume "taskRepository_Create task w = ((None, task'), w')"
  then obtain w2 where
    f: "Create_fn task ?w1 = ((None, task'), w2)" and
    w': "w' = w2\<lparr>round_trips := Suc (round_trips w2), faults := tl (faults w2)\<rparr>"
    unfolding taskRepository_Create_def by (rule RunInTx_None)
  note c = Create_fn_None [OF f]
  from c(1) show t: "Task.CreatedAt task' = wall_clock w" "Task.UpdatedAt task' = wall_clock w"
    "Task.ID task' \<noteq> 0" "Task.Title task' = Task.Title task"
    "Task.Description task' = Task.Description task"
    by simp_all
  from c(2) show l: "list_all2 (\<lambda>item item'. TaskItem.ID item' \<noteq> 0 \<and>
             item' = item\<lparr>TaskItem.ID := TaskItem.ID item', TaskItem.TaskID := Task.ID task',
                           TaskItem.CreatedAt := wall_clock w,
                           TaskItem.UpdatedAt := wall_clock w\<rparr>)
        (elems (Task.Items task)) (elems (Task.Items task'))"
    by simp
  from c(3) have "tbl_tasks w' = tbl_tasks w @ [tasks_row_of task']"
    by (simp add: w')
  then show "tbl_tasks w' = tbl_tasks w @
        [\<lparr>tasks_row.id = Task.ID task', title = Task.Title task,
          description = Task.Description task,
          created_at = pg_timestamp (wall_clock w),
          updated_at = pg_timestamp (wall_clock w)\<rparr>]"
    by (simp add: tasks_row_of_def t)
  have "task_items_row_of item' =
          \<lparr>task_items_row.id = TaskItem.ID item', task_id = Task.ID task',
           title = TaskItem.Title item', completed = TaskItem.Completed item',
           created_at = pg_timestamp (wall_clock w),
           updated_at = pg_timestamp (wall_clock w)\<rparr>"
    if "item' \<in> set (elems (Task.Items task'))" for item'
  proof -
    from list_all2_rightD [OF l that] obtain item where
      "item' = item\<lparr>TaskItem.ID := TaskItem.ID item', TaskItem.TaskID := Task.ID task',
                      TaskItem.CreatedAt := wall_clock w, TaskItem.UpdatedAt := wall_clock w\<rparr>"
      by blast
    then have "TaskItem.TaskID item' = Task.ID task'" "TaskItem.CreatedAt item' = wall_clock w"
      "TaskItem.UpdatedAt item' = wall_clock w"
      by (metis TaskItem.select_convs TaskItem.surjective TaskItem.update_convs)+
    then show ?thesis
      by (simp add: task_items_row_of_def)
  qed
  then have m: "map task_items_row_of (elems (Task.Items task')) =
        map (\<lambda>item'. \<lparr>task_items_row.id = TaskItem.ID item', task_id = Task.ID task',
                        title = TaskItem.Title item', completed = TaskItem.Completed item',
                        created_at = pg_timestamp (wall_clock w),
                        updated_at = pg_timestamp (wall_clock w)\<rparr>)
            (elems (Task.Items task'))"
    by simp
  from c(4) have "tbl_task_items w' =
      tbl_task_items w @ map task_items_row_of (elems (Task.Items task'))"
    by (simp add: w')
  then show "tbl_task_items w' = tbl_task_items w @
        map (\<lambda>item'. \<lparr>task_items_row.id = TaskItem.ID item', task_id = Task.ID task',
                        title = TaskItem.Title item', completed = TaskItem.Completed item',
                        created_at = pg_timestamp (wall_clock w),
                        updated_at = pg_timestamp (wall_clock w)\<rparr>)
            (elems (Task.Items task'))"
    by (simp only: m)
  from c(5) show "round_trips w' = round_trips w + (if elems (Task.Items task) = [] then 3 else 4)"
    by (simp add: w')
qed

lemmas Create_eval =
  taskRepository_Create_def RunInTx_def Create_fn_def insert_task_def insert_tasks_row_def
  nextval_tasks_def round_trip_def insert_items_def insert_task_items_row_def
  nextval_task_items_def char_length_def max_int64_def len_def rollback_def pg_timestamp_def
  Let_def

theorem Create_is_one_transaction_witness:
  "taskRepository_Create shopping (new_world 1793432796933081892 []) =
     ((None,
       \<lparr>Task.ID = 1, Title = ''Shopping'', Description = ''Weekly shopping'',
        CreatedAt = 1793432796933081892, UpdatedAt = 1793432796933081892,
        Items = Slice
          [\<lparr>TaskItem.ID = 1, TaskID = 1, Title = ''Buy milk'', Completed = False,
            CreatedAt = 1793432796933081892, UpdatedAt = 1793432796933081892\<rparr>,
           \<lparr>TaskItem.ID = 2, TaskID = 1, Title = ''Buy bread'', Completed = True,
            CreatedAt = 1793432796933081892, UpdatedAt = 1793432796933081892\<rparr>]\<rparr>),
      \<lparr>tbl_tasks =
         [\<lparr>tasks_row.id = 1, title = ''Shopping'', description = ''Weekly shopping'',
           created_at = 1793432796933081000, updated_at = 1793432796933081000\<rparr>],
       tbl_task_items =
         [\<lparr>task_items_row.id = 1, task_id = 1, title = ''Buy milk'', completed = False,
           created_at = 1793432796933081000, updated_at = 1793432796933081000\<rparr>,
          \<lparr>task_items_row.id = 2, task_id = 1, title = ''Buy bread'', completed = True,
           created_at = 1793432796933081000, updated_at = 1793432796933081000\<rparr>],
       tasks_id_seq = 1, task_items_id_seq = 2, wall_clock = 1793432796933081892,
       round_trips = 4, faults = []\<rparr>) \<and>
   pg_timestamp 1793432796933081892 = 1793432796933081000 \<and>
   fst (fst (taskRepository_Create shopping (new_world 7 [None, None, Some ''connection lost''])))
     = Some (driver_error ''connection lost'') \<and>
   tbl_tasks (snd (taskRepository_Create shopping
                     (new_world 7 [None, None, Some ''connection lost'']))) = [] \<and>
   tbl_task_items (snd (taskRepository_Create shopping
                     (new_world 7 [None, None, Some ''connection lost'']))) = []"
proof -
  let ?task' = "\<lparr>Task.ID = 1, Title = ''Shopping'', Description = ''Weekly shopping'',
        CreatedAt = 1793432796933081892, UpdatedAt = 1793432796933081892,
        Items = Slice
          [\<lparr>TaskItem.ID = 1, TaskID = 1, Title = ''Buy milk'', Completed = False,
            CreatedAt = 1793432796933081892, UpdatedAt = 1793432796933081892\<rparr>,
           \<lparr>TaskItem.ID = 2, TaskID = 1, Title = ''Buy bread'', Completed = True,
            CreatedAt = 1793432796933081892, UpdatedAt = 1793432796933081892\<rparr>]\<rparr>"
  let ?w' = "\<lparr>tbl_tasks =
         [\<lparr>tasks_row.id = 1, title = ''Shopping'', description = ''Weekly shopping'',
           created_at = 1793432796933081000, updated_at = 1793432796933081000\<rparr>],
       tbl_task_items =
         [\<lparr>task_items_row.id = 1, task_id = 1, title = ''Buy milk'', completed = False,
           created_at = 1793432796933081000, updated_at = 1793432796933081000\<rparr>,
          \<lparr>task_items_row.id = 2, task_id = 1, title = ''Buy bread'', completed = True,
           created_at = 1793432796933081000, updated_at = 1793432796933081000\<rparr>],
       tasks_id_seq = 1, task_items_id_seq = 2, wall_clock = 1793432796933081892,
       round_trips = 4, faults = []\<rparr>"
  let ?w0 = "new_world 1793432796933081892 []"
  let ?wf = "new_world 7 [None, None, Some ''connection lost'']"
  have ok: "taskRepository_Create shopping ?w0 = ((None, ?task'), ?w')"
    by (simp add: Create_eval shopping_def new_world_def)
  obtain taskf wf' where
    ko: "taskRepository_Create shopping ?wf = ((Some (driver_error ''connection lost''), taskf), wf')"
    by (simp add: Create_eval shopping_def new_world_def)
  note s = Create_is_one_transaction [of shopping ?w0 ?task' ?w',
             THEN conjunct1, THEN mp, OF ok]
  note f = Create_is_one_transaction [of shopping ?wf taskf wf' "driver_error ''connection lost''",
             THEN conjunct2, THEN mp, OF ko]
  have e: "tbl_tasks ?wf = []" "tbl_task_items ?wf = []"
    by (simp_all add: new_world_def)
  have p: "pg_timestamp 1793432796933081892 = 1793432796933081000"
    by (simp add: pg_timestamp_def)
  from f e ko have "tbl_tasks (snd (taskRepository_Create shopping ?wf)) = []"
    "tbl_task_items (snd (taskRepository_Create shopping ?wf)) = []"
    by simp_all
  moreover from ko have "fst (fst (taskRepository_Create shopping ?wf)) =
      Some (driver_error ''connection lost'')"
    by simp
  moreover note ok p
  ultimately show ?thesis
    using s by simp
qed

section \<open>Listing the tasks\<close>

lemma scan_task_tables:
  "tbl_task_items w1 = tbl_task_items w \<Longrightarrow> scan_task r w1 = scan_task r w"
  by (simp add: scan_task_def relation_Items_def)

lemma elems_relation_Items:
  "elems (relation_Items taskID w) =
     map scan_item (filter (\<lambda>r. task_items_row.task_id r = taskID) (tbl_task_items w))"
  by (simp add: relation_Items_def split: list.splits)

lemma List_eq:
  "taskRepository_List w =
     (case next_fault w of
        Some m \<Rightarrow> (Inl (driver_error m), snd (round_trip w))
      | None \<Rightarrow>
          (case sort_key (\<lambda>r. - tasks_row.created_at r) (tbl_tasks w) of
             [] \<Rightarrow> (Inr nil, snd (round_trip w))
           | r # rs \<Rightarrow>
               (case next_fault (snd (round_trip w)) of
                  Some m \<Rightarrow> (Inl (driver_error m), snd (round_trip (snd (round_trip w))))
                | None \<Rightarrow>
                    (Inr (Slice (map (\<lambda>r. scan_task r w)
                                  (sort_key (\<lambda>r. - tasks_row.created_at r) (tbl_tasks w)))),
                     snd (round_trip (snd (round_trip w)))))))"
proof -
  have s: "scan_task r (snd (round_trip (snd (round_trip w)))) = scan_task r w" for r
    by (rule scan_task_tables) simp
  show ?thesis
    by (simp add: taskRepository_List_def round_trip_eq [of w]
          round_trip_eq [of "w\<lparr>round_trips := Suc (round_trips w), faults := tl (faults w)\<rparr>"]
          s [unfolded round_trip_eq, simplified]
        split: option.splits list.splits)
qed

lemma List_Inr:
  assumes "taskRepository_List w = (Inr ts, w')"
  shows "elems ts = map (\<lambda>r. scan_task r w)
                      (sort_key (\<lambda>r. - tasks_row.created_at r) (tbl_tasks w))"
    and "tbl_tasks w' = tbl_tasks w" and "tbl_task_items w' = tbl_task_items w"
  using assms
  by (auto simp: List_eq split: option.splits list.splits)

text \<open>
  Claim C8. When \<^verbatim>\<open>List\<close> succeeds, the tasks it returns are in non-increasing order
  of \<^verbatim>\<open>created_at\<close>; they are the stored tasks, each once, each with the stored items
  whose \<^verbatim>\<open>task_id\<close> is its \<^verbatim>\<open>id\<close>; and the tables are untouched. With no task stored
  and the query executed, \<^verbatim>\<open>List\<close> returns the empty sequence and no error. With a
  connection that does not fail, \<^verbatim>\<open>List\<close> succeeds.
\<close>

theorem List_returns_all_tasks_newest_first:
  "(taskRepository_List w = (Inr ts, w') \<longrightarrow>
      sorted_wrt (\<lambda>a b. Task.CreatedAt b \<le> Task.CreatedAt a) (elems ts) \<and>
      mset (elems ts) = mset (map (\<lambda>r. scan_task r w) (tbl_tasks w)) \<and>
      map (\<lambda>t. elems (Task.Items t)) (elems ts) =
        map (\<lambda>t. map scan_item
                   (filter (\<lambda>r. task_items_row.task_id r = Task.ID t) (tbl_task_items w)))
            (elems ts) \<and>
      tbl_tasks w' = tbl_tasks w \<and> tbl_task_items w' = tbl_task_items w) \<and>
   (tbl_tasks w = [] \<and> next_fault w = None \<longrightarrow> fst (taskRepository_List w) = Inr nil) \<and>
   (faults w = [] \<longrightarrow> (\<exists>ts. fst (taskRepository_List w) = Inr ts))"
proof (intro conjI impI)
  assume a: "taskRepository_List w = (Inr ts, w')"
  note l = List_Inr [OF a]
  let ?rows = "sort_key (\<lambda>r. - tasks_row.created_at r) (tbl_tasks w)"
  have "sorted (map (\<lambda>r. - tasks_row.created_at r) ?rows)"
    by (rule sorted_sort_key)
  then have "sorted_wrt (\<lambda>x y. tasks_row.created_at y \<le> tasks_row.created_at x) ?rows"
    by (simp add: sorted_map)
  then show "sorted_wrt (\<lambda>a b. Task.CreatedAt b \<le> Task.CreatedAt a) (elems ts)"
    by (simp add: l(1) sorted_wrt_map scan_task_def)
  have "mset ?rows = mset (tbl_tasks w)"
    by simp
  then show "mset (elems ts) = mset (map (\<lambda>r. scan_task r w) (tbl_tasks w))"
    by (simp add: l(1))
  show "map (\<lambda>t. elems (Task.Items t)) (elems ts) =
        map (\<lambda>t. map scan_item
                   (filter (\<lambda>r. task_items_row.task_id r = Task.ID t) (tbl_task_items w)))
            (elems ts)"
    by (simp add: l(1) scan_task_def elems_relation_Items)
  show "tbl_tasks w' = tbl_tasks w" by (rule l(2))
  show "tbl_task_items w' = tbl_task_items w" by (rule l(3))
next
  assume "tbl_tasks w = [] \<and> next_fault w = None"
  then show "fst (taskRepository_List w) = Inr nil"
    by (simp add: List_eq)
next
  assume "faults w = []"
  then have "next_fault w = None" "next_fault (snd (round_trip w)) = None"
    by (simp_all add: next_fault_def round_trip_def)
  then show "\<exists>ts. fst (taskRepository_List w) = Inr ts"
    by (simp add: List_eq split: list.splits)
qed

theorem List_returns_all_tasks_newest_first_witness:
  "taskRepository_List two_task_world =
     (Inr (Slice
        [\<lparr>Task.ID = 2, Title = ''Work'', Description = ''Project tasks'',
          CreatedAt = 9000, UpdatedAt = 9000, Items = nil\<rparr>,
         \<lparr>Task.ID = 1, Title = ''Shopping'', Description = ''Weekly shopping'',
          CreatedAt = 7000, UpdatedAt = 7000,
          Items = Slice [\<lparr>TaskItem.ID = 1, TaskID = 1, Title = ''Buy milk'',
                          Completed = False, CreatedAt = 7000, UpdatedAt = 7000\<rparr>]\<rparr>]),
      two_task_world\<lparr>round_trips := 9\<rparr>) \<and>
   sorted_wrt (\<lambda>a b. Task.CreatedAt b \<le> Task.CreatedAt a)
     (elems (projr (fst (taskRepository_List two_task_world)))) \<and>
   fst (taskRepository_List (new_world 0 [])) = Inr nil"
proof -
  let ?ts = "Slice
        [\<lparr>Task.ID = 2, Title = ''Work'', Description = ''Project tasks'',
          CreatedAt = 9000, UpdatedAt = 9000, Items = nil\<rparr>,
         \<lparr>Task.ID = 1, Title = ''Shopping'', Description = ''Weekly shopping'',
          CreatedAt = 7000, UpdatedAt = 7000,
          Items = Slice [\<lparr>TaskItem.ID = 1, TaskID = 1, Title = ''Buy milk'',
                          Completed = False, CreatedAt = 7000, UpdatedAt = 7000\<rparr>]\<rparr>]"
  have l: "taskRepository_List two_task_world = (Inr ?ts, two_task_world\<lparr>round_trips := 9\<rparr>)"
    by (simp add: taskRepository_List_def round_trip_def two_task_world_def scan_task_def
          relation_Items_def scan_item_def)
  have e: "tbl_tasks (new_world 0 []) = [] \<and> next_fault (new_world 0 []) = None"
    by (simp add: new_world_def next_fault_def)
  note a = List_returns_all_tasks_newest_first
             [of two_task_world ?ts "two_task_world\<lparr>round_trips := 9\<rparr>",
              THEN conjunct1, THEN mp, OF l, THEN conjunct1]
  note b = List_returns_all_tasks_newest_first
             [of "new_world 0 []" ?ts "new_world 0 []",
              THEN conjunct2, THEN conjunct1, THEN mp, OF e]
  have f: "faults two_task_world = []"
    by (simp add: two_task_world_def)
  note c = List_returns_all_tasks_newest_first
             [of two_task_world ?ts "two_task_world\<lparr>round_trips := 9\<rparr>",
              THEN conjunct2, THEN conjunct2, THEN mp, OF f]
  show ?thesis
    using a b c l by simp
qed

section \<open>The order of the items\<close>


lemma round_trip_keeps_order [simp]:
  "items_in_id_order (snd (round_trip w)) = items_in_id_order w"
  by (simp add: items_in_id_order_def)




























end
